theory Spec2Isabelle
  imports Main "HOL-Library.Word" "HOL-Library.Multiset"
begin

section \<open>JavaScript strings\<close>

text \<open>
  A JavaScript string is a sequence of UTF-16 code units; \<open>s.length\<close> counts code units.
  \<open>lit\<close> embeds an ASCII literal of the source.
\<close>

type_synonym code_unit = "16 word"
type_synonym js_string = "code_unit list"

definition lit :: "string \<Rightarrow> js_string" where
  "lit s = map of_char s"

text \<open>
  The code units that \<open>String.prototype.trim\<close> strips: ECMAScript WhiteSpace
  (TAB, VT, FF, SP, NBSP, ZWNBSP and the Unicode space separators) and LineTerminator
  (LF, CR, LS, PS).
\<close>

definition isWhiteSpace :: "code_unit \<Rightarrow> bool" where
  "isWhiteSpace c \<longleftrightarrow>
     c \<in> set [0x0009, 0x000A, 0x000B, 0x000C, 0x000D, 0x0020, 0x00A0, 0x1680,
              0x2000, 0x2001, 0x2002, 0x2003, 0x2004, 0x2005, 0x2006, 0x2007,
              0x2008, 0x2009, 0x200A, 0x2028, 0x2029, 0x202F, 0x205F, 0x3000, 0xFEFF]"

definition trimStart :: "js_string \<Rightarrow> js_string" where
  "trimStart s = dropWhile isWhiteSpace s"

definition trimEnd :: "js_string \<Rightarrow> js_string" where
  "trimEnd s = rev (dropWhile isWhiteSpace (rev s))"

definition trim :: "js_string \<Rightarrow> js_string" where
  "trim s = trimEnd (trimStart s)"

fun startsWith :: "js_string \<Rightarrow> js_string \<Rightarrow> bool" where
  "startsWith s [] = True"
| "startsWith [] (p # ps) = False"
| "startsWith (x # xs) (p # ps) = (x = p \<and> startsWith xs ps)"

text \<open>\<open>s.includes(sub)\<close>: \<open>sub\<close> occurs in \<open>s\<close> at some position.\<close>

fun includes_js :: "js_string \<Rightarrow> js_string \<Rightarrow> bool" where
  "includes_js [] sub = (sub = [])"
| "includes_js (x # xs) sub = (startsWith (x # xs) sub \<or> includes_js xs sub)"

text \<open>\<open>a || b\<close> on strings: the empty string is falsy.\<close>

definition or_else :: "js_string \<Rightarrow> js_string \<Rightarrow> js_string" where
  "or_else a b = (if a = [] then b else a)"


section \<open>Data model (lib/api.ts, the notes migration)\<close>

text \<open>
  \<open>interface Note\<close>. The field \<open>id\<close> is \<open>note_id\<close> here. The two timestamps are
  instants on the database clock.
\<close>

record Note =
  note_id :: js_string
  title :: js_string
  content :: js_string
  created_at :: nat
  updated_at :: nat
  user_id :: js_string

text \<open>The part of the SDK's \<open>User\<close> that the code reads: \<open>user.id\<close>.\<close>

record User =
  uid :: js_string

text \<open>
  The part of the SDK's \<open>Session\<close> that the code reads. \<open>session.user\<close> may be missing
  (the code tests it), \<open>expires_at\<close> is optional, in seconds since the epoch.
\<close>

record Session =
  access_token :: js_string
  session_user :: "User option"
  expires_at :: "int option"

record AuthError =
  auth_message :: js_string

text \<open>What \<open>supabase.auth.getSession()\<close> resolves to: \<open>{ data: { session }, error }\<close>.\<close>

record GetSessionResponse =
  gs_session :: "Session option"
  gs_error :: "AuthError option"

text \<open>The error object of a data request; the code reads \<open>code\<close> and \<open>message\<close>.\<close>

record PostgrestError =
  code :: "js_string option"
  message :: "js_string option"

text \<open>What a data request resolves to: \<open>{ data, error }\<close>, \<open>None\<close> for \<open>null\<close>.\<close>

record 'a Response =
  data :: "'a option"
  error :: "PostgrestError option"

text \<open>
  Every \<open>throw new Error(...)\<close> of lib/api.ts, one constructor for each throw site;
  \<open>error_message\<close> gives the text the source puts in the \<open>Error\<close>. \<open>TypeError\<close> is
  what reading \<open>session.user.id\<close> raises when \<open>session.user\<close> is missing.
\<close>

datatype api_error =
    AuthenticationError js_string
  | NoValidSession
  | UserNotAuthenticated
  | SessionExpired
  | AuthenticationFailed
  | AccessDenied
  | Remote js_string
  | NoDataReturned
  | NoteIdRequired
  | TitleRequired
  | TitleTooLong
  | ContentTooLong
  | TypeError

fun error_message :: "api_error \<Rightarrow> js_string" where
  "error_message (AuthenticationError m) = lit ''Authentication error: '' @ m"
| "error_message NoValidSession = lit ''No valid session found. Please log in again.''"
| "error_message UserNotAuthenticated = lit ''User not authenticated. Please log in again.''"
| "error_message SessionExpired = lit ''Session expired. Please log in again.''"
| "error_message AuthenticationFailed = lit ''Authentication failed. Please log in again.''"
| "error_message AccessDenied = lit ''Access denied. You can only access your own notes.''"
| "error_message (Remote m) = m"
| "error_message NoDataReturned = lit ''No data returned from the server.''"
| "error_message NoteIdRequired = lit ''Note ID is required.''"
| "error_message TitleRequired = lit ''Note title is required.''"
| "error_message TitleTooLong = lit ''Note title must be less than 100 characters.''"
| "error_message ContentTooLong = lit ''Note content must be less than 10,000 characters.''"
| "error_message TypeError = lit ''Cannot read properties of null''"

text \<open>
  The error taxonomy of the specification, read on the throw sites: input validation,
  a missing or expired session, a token the remote rejects, the denial message shared by
  "access denied" and "not found", and an unclassified remote failure.
\<close>

fun is_ValidationError :: "api_error \<Rightarrow> bool" where
  "is_ValidationError NoteIdRequired = True"
| "is_ValidationError TitleRequired = True"
| "is_ValidationError TitleTooLong = True"
| "is_ValidationError ContentTooLong = True"
| "is_ValidationError _ = False"

fun is_SessionError :: "api_error \<Rightarrow> bool" where
  "is_SessionError (AuthenticationError m) = True"
| "is_SessionError NoValidSession = True"
| "is_SessionError UserNotAuthenticated = True"
| "is_SessionError SessionExpired = True"
| "is_SessionError _ = False"

fun is_AuthError :: "api_error \<Rightarrow> bool" where
  "is_AuthError AuthenticationFailed = True"
| "is_AuthError _ = False"

fun is_AccessDeniedError :: "api_error \<Rightarrow> bool" where
  "is_AccessDeniedError AccessDenied = True"
| "is_AccessDeniedError _ = False"

fun is_NotFoundError :: "api_error \<Rightarrow> bool" where
  "is_NotFoundError AccessDenied = True"
| "is_NotFoundError _ = False"

fun is_RemoteError :: "api_error \<Rightarrow> bool" where
  "is_RemoteError (Remote m) = True"
| "is_RemoteError _ = False"


section \<open>The world a facade call runs in\<close>

text \<open>
  The requests the client sends to the \<open>notes\<close> collection, in the order of the source.
\<close>

datatype request =
    SelectAll
  | Insert js_string js_string js_string
  | Update js_string js_string js_string js_string
  | Delete js_string js_string
  | SelectOwner js_string js_string

text \<open>
  \<^item> \<open>getSession\<close>: what \<open>supabase.auth.getSession()\<close> resolves to;
  \<^item> \<open>date_now\<close>: \<open>Date.now()\<close>, milliseconds since the epoch;
  \<^item> \<open>notes_table\<close>: the rows of table \<open>notes\<close>;
  \<^item> \<open>gen_random_uuid\<close>: the identifier the database draws for the next inserted row;
  \<^item> \<open>db_now\<close>: \<open>now()\<close> on the database;
  \<^item> \<open>fault\<close>: an error with which the remote answers a request instead of running it
    (a rejected token, an unreachable server, ...);
  \<^item> \<open>requests\<close>: the requests sent to the collection so far.
  One facade call is modelled at one instant: both clocks and the stored session
  stay fixed while it runs.
\<close>

record world =
  getSession :: GetSessionResponse
  date_now :: nat
  notes_table :: "Note list"
  gen_random_uuid :: js_string
  db_now :: nat
  fault :: "PostgrestError option"
  requests :: "request list"


section \<open>The remote collection (the SDK's query builder over the notes migration)\<close>

text \<open>
  The remote platform is not part of the repository; this section states the contract
  the code relies on. A request carries the bearer token of the stored session, and the
  database reads the caller's identity \<open>auth.uid()\<close> from it: the identity of the stored
  session's user, none for an anonymous caller.
\<close>

definition auth_uid :: "world \<Rightarrow> js_string option" where
  "auth_uid w =
     (case gs_session (getSession w) of
        None \<Rightarrow> None
      | Some s \<Rightarrow> (case session_user s of None \<Rightarrow> None | Some u \<Rightarrow> Some (uid u)))"

text \<open>
  The four row policies of the migration have the same condition,
  \<open>auth.uid() = user_id\<close>, for roles that are authenticated.
\<close>

definition policy_own :: "world \<Rightarrow> Note \<Rightarrow> bool" where
  "policy_own w n \<longleftrightarrow> auth_uid w = Some (user_id n)"

text \<open>The trigger \<open>update_notes_updated_at\<close>: before each row update.\<close>

definition update_updated_at_column :: "world \<Rightarrow> Note \<Rightarrow> Note" where
  "update_updated_at_column w n = n\<lparr>updated_at := db_now w\<rparr>"

text \<open>\<open>.order(column, { ascending: false })\<close>.\<close>

definition order_desc :: "('a \<Rightarrow> nat) \<Rightarrow> 'a list \<Rightarrow> 'a list" where
  "order_desc f rows = rev (sort_key f rows)"

definition sent :: "request \<Rightarrow> world \<Rightarrow> world" where
  "sent r w = w\<lparr>requests := requests w @ [r]\<rparr>"

definition failed :: "PostgrestError \<Rightarrow> 'a Response" where
  "failed e = \<lparr>data = None, error = Some e\<rparr>"

definition succeeded :: "'a \<Rightarrow> 'a Response" where
  "succeeded d = \<lparr>data = Some d, error = None\<rparr>"

text \<open>The error of \<open>.single()\<close> when the result is not exactly one row.\<close>

definition PGRST116 :: PostgrestError where
  "PGRST116 = \<lparr>code = Some (lit ''PGRST116''),
                message = Some (lit ''JSON object requested, multiple (or no) rows returned'')\<rparr>"

text \<open>SQLSTATE 42501: the new row fails the \<open>WITH CHECK\<close> of the insert policy.\<close>

definition insufficient_privilege :: PostgrestError where
  "insufficient_privilege = \<lparr>code = Some (lit ''42501''),
     message = Some (lit ''new row violates row-level security policy for table notes'')\<rparr>"

text \<open>SQLSTATE 23505: the primary key \<open>id\<close> is taken.\<close>

definition unique_violation :: PostgrestError where
  "unique_violation = \<lparr>code = Some (lit ''23505''),
     message = Some (lit ''duplicate key value violates unique constraint notes_pkey'')\<rparr>"

text \<open>The two filters \<open>.eq('id', i).eq('user_id', u)\<close>.\<close>

definition eq_id_user :: "js_string \<Rightarrow> js_string \<Rightarrow> Note \<Rightarrow> bool" where
  "eq_id_user i u n \<longleftrightarrow> note_id n = i \<and> user_id n = u"

definition single :: "'a list \<Rightarrow> 'a Response" where
  "single rows = (case rows of [r] \<Rightarrow> succeeded r | _ \<Rightarrow> failed PGRST116)"

text \<open>\<open>from('notes').select('*').order('updated_at', { ascending: false })\<close>.\<close>

definition select_all_ordered :: "world \<Rightarrow> Note list Response \<times> world" where
  "select_all_ordered w =
     (let w' = sent SelectAll w in
      case fault w of
        Some e \<Rightarrow> (failed e, w')
      | None \<Rightarrow> (succeeded (order_desc updated_at (filter (policy_own w) (notes_table w))), w'))"

text \<open>
  \<open>from('notes').insert([{ title, content, user_id }]).select().single()\<close>: the
  database assigns \<open>id\<close>, \<open>created_at\<close> and \<open>updated_at\<close> by the column defaults.
\<close>

definition insert_single :: "js_string \<Rightarrow> js_string \<Rightarrow> js_string \<Rightarrow> world \<Rightarrow> Note Response \<times> world" where
  "insert_single t c u w =
     (let w' = sent (Insert t c u) w in
      case fault w of
        Some e \<Rightarrow> (failed e, w')
      | None \<Rightarrow>
          if auth_uid w \<noteq> Some u then (failed insufficient_privilege, w')
          else if gen_random_uuid w \<in> set (map note_id (notes_table w)) then (failed unique_violation, w')
          else
            let n = \<lparr>note_id = gen_random_uuid w, title = t, content = c,
                     created_at = db_now w, updated_at = db_now w, user_id = u\<rparr>
            in (succeeded n, w'\<lparr>notes_table := notes_table w @ [n]\<rparr>))"

text \<open>
  \<open>from('notes').update({ title, content, updated_at }).eq('id', id).eq('user_id', u)
  .select().single()\<close>: the rows the update policy lets the caller see and both filters
  select are rewritten, the trigger then resets \<open>updated_at\<close>; when the result is not a
  single row the request fails and changes nothing.
\<close>

definition update_single ::
  "js_string \<Rightarrow> js_string \<Rightarrow> nat \<Rightarrow> js_string \<Rightarrow> js_string \<Rightarrow> world \<Rightarrow> Note Response \<times> world" where
  "update_single t c ts i u w =
     (let w' = sent (Update i u t c) w;
          hit = (\<lambda>n. policy_own w n \<and> eq_id_user i u n);
          new = (\<lambda>n. update_updated_at_column w (n\<lparr>title := t, content := c, updated_at := ts\<rparr>))
      in
      case fault w of
        Some e \<Rightarrow> (failed e, w')
      | None \<Rightarrow>
          (case filter hit (notes_table w) of
             [n] \<Rightarrow> (succeeded (new n),
                      w'\<lparr>notes_table := map (\<lambda>n. if hit n then new n else n) (notes_table w)\<rparr>)
           | _ \<Rightarrow> (failed PGRST116, w')))"

text \<open>
  \<open>from('notes').delete().eq('id', id).eq('user_id', u)\<close>: no representation is asked
  for, so the answer has no data, and no error either when no row matches.
\<close>

definition delete_rows :: "js_string \<Rightarrow> js_string \<Rightarrow> world \<Rightarrow> unit Response \<times> world" where
  "delete_rows i u w =
     (let w' = sent (Delete i u) w;
          hit = (\<lambda>n. policy_own w n \<and> eq_id_user i u n)
      in
      case fault w of
        Some e \<Rightarrow> (failed e, w')
      | None \<Rightarrow> (\<lparr>data = None, error = None\<rparr>,
                  w'\<lparr>notes_table := filter (\<lambda>n. \<not> hit n) (notes_table w)\<rparr>))"

text \<open>\<open>from('notes').select('user_id').eq('id', id).eq('user_id', u).single()\<close>.\<close>

definition select_owner_single :: "js_string \<Rightarrow> js_string \<Rightarrow> world \<Rightarrow> js_string Response \<times> world" where
  "select_owner_single i u w =
     (let w' = sent (SelectOwner i u) w;
          hit = (\<lambda>n. policy_own w n \<and> eq_id_user i u n)
      in
      case fault w of
        Some e \<Rightarrow> (failed e, w')
      | None \<Rightarrow> (single (map user_id (filter hit (notes_table w))), w'))"


section \<open>lib/api.ts\<close>

text \<open>
  A call either throws or returns, and leaves a world behind:
  \<open>(Inl e, w')\<close> for \<open>throw e\<close>, \<open>(Inr v, w')\<close> for \<open>return v\<close>.
\<close>

type_synonym 'a call = "world \<Rightarrow> (api_error + 'a) \<times> world"

text \<open>
  \<open>session.expires_at && session.expires_at < now\<close>: a missing \<open>expires_at\<close> and the
  number 0 are falsy.
\<close>

definition getAuthenticatedSession :: "world \<Rightarrow> api_error + Session" where
  "getAuthenticatedSession w =
     (case gs_error (getSession w) of
        Some e \<Rightarrow> Inl (AuthenticationError (auth_message e))
      | None \<Rightarrow>
          (case gs_session (getSession w) of
             None \<Rightarrow> Inl NoValidSession
           | Some session \<Rightarrow>
               if access_token session = [] then Inl NoValidSession
               else if session_user session = None then Inl UserNotAuthenticated
               else
                 let now = int (date_now w div 1000) in
                 if (case expires_at session of None \<Rightarrow> False | Some e \<Rightarrow> e \<noteq> 0 \<and> e < now)
                 then Inl SessionExpired
                 else Inr session))"

text \<open>\<open>error.message?.includes(s)\<close>.\<close>

definition message_includes :: "PostgrestError \<Rightarrow> js_string \<Rightarrow> bool" where
  "message_includes e s = (case message e of None \<Rightarrow> False | Some m \<Rightarrow> includes_js m s)"

text \<open>The three \<open>throw\<close>s under \<open>if (error)\<close>.\<close>

definition translate_error :: "PostgrestError \<Rightarrow> api_error" where
  "translate_error e =
     (if code e = Some (lit ''PGRST301'') \<or> message_includes e (lit ''JWT'') then AuthenticationFailed
      else if code e = Some (lit ''PGRST116'') \<or> message_includes e (lit ''RLS'') then AccessDenied
      else Remote (or_else (case message e of None \<Rightarrow> [] | Some m \<Rightarrow> m)
                           (lit ''An error occurred while processing your request.'')))"

definition makeAuthenticatedRequest :: "('a Response) call \<Rightarrow> 'a call" where
  "makeAuthenticatedRequest operation w =
     (case getAuthenticatedSession w of
        Inl e \<Rightarrow> (Inl e, w)
      | Inr session \<Rightarrow>
          (case operation w of
             (Inl e, w') \<Rightarrow> (Inl e, w')
           | (Inr r, w') \<Rightarrow>
               (case error r of
                  Some e \<Rightarrow> (Inl (translate_error e), w')
                | None \<Rightarrow>
                    (case data r of
                       None \<Rightarrow> (Inl NoDataReturned, w')
                     | Some d \<Rightarrow> (Inr d, w')))))"

text \<open>\<open>session.user.id\<close>.\<close>

definition session_user_id :: "Session \<Rightarrow> api_error + js_string" where
  "session_user_id session =
     (case session_user session of None \<Rightarrow> Inl TypeError | Some u \<Rightarrow> Inr (uid u))"

text \<open>
  The body shared by the operations handed to \<open>makeAuthenticatedRequest\<close>:
  \<open>const session = await getAuthenticatedSession()\<close>, then one request, which may use
  \<open>session.user.id\<close>.
\<close>

definition with_session :: "(Session \<Rightarrow> 'a call) \<Rightarrow> 'a call" where
  "with_session body w =
     (case getAuthenticatedSession w of Inl e \<Rightarrow> (Inl e, w) | Inr session \<Rightarrow> body session w)"

definition with_user_id :: "Session \<Rightarrow> (js_string \<Rightarrow> 'a call) \<Rightarrow> 'a call" where
  "with_user_id session body w =
     (case session_user_id session of Inl e \<Rightarrow> (Inl e, w) | Inr u \<Rightarrow> body u w)"

definition returned :: "'a \<times> world \<Rightarrow> (api_error + 'a) \<times> world" where
  "returned rw = (Inr (fst rw), snd rw)"

definition getNotes :: "(Note list) call" where
  "getNotes = makeAuthenticatedRequest
     (with_session (\<lambda>session w. returned (select_all_ordered w)))"

definition createNote :: "js_string \<Rightarrow> js_string \<Rightarrow> Note call" where
  "createNote t c w =
     (if trim t = [] then (Inl TitleRequired, w)
      else if length t > 100 then (Inl TitleTooLong, w)
      else if length c > 10000 then (Inl ContentTooLong, w)
      else makeAuthenticatedRequest
             (with_session (\<lambda>session. with_user_id session
                (\<lambda>u w. returned (insert_single (trim t) (trim c) u w)))) w)"

definition updateNote :: "js_string \<Rightarrow> js_string \<Rightarrow> js_string \<Rightarrow> Note call" where
  "updateNote i t c w =
     (if i = [] then (Inl NoteIdRequired, w)
      else if trim t = [] then (Inl TitleRequired, w)
      else if length t > 100 then (Inl TitleTooLong, w)
      else if length c > 10000 then (Inl ContentTooLong, w)
      else makeAuthenticatedRequest
             (with_session (\<lambda>session. with_user_id session
                (\<lambda>u w. returned (update_single (trim t) (trim c) (date_now w) i u w)))) w)"

text \<open>The arrow function that \<open>deleteNote\<close> hands to \<open>makeAuthenticatedRequest\<close>.\<close>

definition deleteNote_operation :: "js_string \<Rightarrow> (unit Response) call" where
  "deleteNote_operation i =
     with_session (\<lambda>session. with_user_id session
       (\<lambda>u w. case delete_rows i u w of
                 (result, w') \<Rightarrow> (Inr \<lparr>data = None, error = error result\<rparr>, w')))"

text \<open>\<open>deleteNote\<close> awaits \<open>makeAuthenticatedRequest\<close> and returns nothing.\<close>

definition deleteNote :: "js_string \<Rightarrow> unit call" where
  "deleteNote i w =
     (if i = [] then (Inl NoteIdRequired, w)
      else
        (case makeAuthenticatedRequest (deleteNote_operation i) w of
           (Inl e, w') \<Rightarrow> (Inl e, w')
         | (Inr d, w') \<Rightarrow> (Inr (), w')))"

text \<open>\<open>try { ... } catch (error) { ... }\<close>.\<close>

definition try_catch :: "'a call \<Rightarrow> (api_error \<Rightarrow> 'a call) \<Rightarrow> 'a call" where
  "try_catch body handler w =
     (case body w of (Inl e, w') \<Rightarrow> handler e w' | (Inr v, w') \<Rightarrow> (Inr v, w'))"

definition verifyNoteOwnership :: "js_string \<Rightarrow> bool call" where
  "verifyNoteOwnership noteId =
     try_catch
       (with_session (\<lambda>session. with_user_id session
          (\<lambda>u w. case select_owner_single noteId u w of
                    (r, w') \<Rightarrow> (Inr (error r = None \<and> data r \<noteq> None), w'))))
       (\<lambda>e w. (Inr False, w))"


section \<open>contexts/AuthContext.tsx: the auth-state listener and signOut\<close>








section \<open>Concrete worlds\<close>

definition alice :: User where
  "alice = \<lparr>uid = lit ''alice''\<rparr>"

definition alice_session :: Session where
  "alice_session = \<lparr>access_token = lit ''token'', session_user = Some alice, expires_at = Some 2000\<rparr>"

definition note_a1 :: Note where
  "note_a1 = \<lparr>note_id = lit ''a1'', title = lit ''shopping'', content = lit ''milk'',
              created_at = 5, updated_at = 5, user_id = lit ''alice''\<rparr>"

definition note_b1 :: Note where
  "note_b1 = \<lparr>note_id = lit ''b1'', title = lit ''diary'', content = [],
              created_at = 6, updated_at = 9, user_id = lit ''bob''\<rparr>"

definition note_a2 :: Note where
  "note_a2 = \<lparr>note_id = lit ''a2'', title = lit ''todo'', content = lit ''call'',
              created_at = 7, updated_at = 8, user_id = lit ''alice''\<rparr>"

text \<open>
  Alice is signed in, her session expires at second 2000 and it is second 1000; the table
  holds two notes of hers and one of Bob's.
\<close>

definition world0 :: world where
  "world0 = \<lparr>getSession = \<lparr>gs_session = Some alice_session, gs_error = None\<rparr>,
             date_now = 1000000, notes_table = [note_a1, note_b1, note_a2],
             gen_random_uuid = lit ''a3'', db_now = 10, fault = None, requests = []\<rparr>"







text \<open>Remote errors.\<close>

definition no_single_row_jwt :: PostgrestError where
  "no_single_row_jwt = \<lparr>code = Some (lit ''PGRST116''), message = Some (lit ''JWT expired'')\<rparr>"

definition statement_timeout :: PostgrestError where
  "statement_timeout = \<lparr>code = Some (lit ''57014''),
     message = Some (lit ''canceling statement due to statement timeout'')\<rparr>"

definition empty_message :: PostgrestError where
  "empty_message = \<lparr>code = Some (lit ''500''), message = Some []\<rparr>"

text \<open>Code units and session answers used in the examples.\<close>

definition letter_a :: code_unit where
  "letter_a = of_char CHR ''a''"

definition space :: code_unit where
  "space = of_char CHR '' ''"



text \<open>The note that the database makes of \<open>createNote(" hi ", "x  ")\<close> in \<open>world0\<close>.\<close>

definition note_hi :: Note where
  "note_hi = \<lparr>note_id = lit ''a3'', title = lit ''hi'', content = lit ''x'',
              created_at = 10, updated_at = 10, user_id = lit ''alice''\<rparr>"

text \<open>What \<open>updateNote("a2", " hi ", "x  ")\<close> makes of \<open>note_a2\<close> in \<open>world0\<close>.\<close>

definition note_a2_hi :: Note where
  "note_a2_hi = \<lparr>note_id = lit ''a2'', title = lit ''hi'', content = lit ''x'',
                 created_at = 7, updated_at = 10, user_id = lit ''alice''\<rparr>"


section \<open>Sessions and requests: basic facts\<close>

lemmas world0_defs = world0_def alice_session_def alice_def note_a1_def note_b1_def note_a2_def

lemma makeAuthenticatedRequest_no_session:
  "getAuthenticatedSession w = Inl e \<Longrightarrow> makeAuthenticatedRequest operation w = (Inl e, w)"
  by (simp add: makeAuthenticatedRequest_def)

lemma with_session_no_session:
  "getAuthenticatedSession w = Inl e \<Longrightarrow> with_session body w = (Inl e, w)"
  by (simp add: with_session_def)

lemma valid_session_user:
  assumes "getAuthenticatedSession w = Inr s"
  shows "\<exists>u. session_user s = Some u \<and> auth_uid w = Some (uid u) \<and> session_user_id s = Inr (uid u)"
  using assms
  by (auto simp: getAuthenticatedSession_def auth_uid_def session_user_id_def Let_def
           split: option.splits if_splits)

lemma own_rows:
  "auth_uid w = Some u \<Longrightarrow> (policy_own w n \<and> eq_id_user i u n) = eq_id_user i u n"
  by (auto simp: policy_own_def eq_id_user_def)

lemma world0_session: "getAuthenticatedSession world0 = Inr alice_session"
  by (simp add: getAuthenticatedSession_def world0_defs lit_def)


section \<open>deleteNote\<close>

lemma deleteNote_operation_data:
  "deleteNote_operation i w = (Inr r, w') \<Longrightarrow> data r = None"
  by (auto simp: deleteNote_operation_def with_session_def with_user_id_def
           split: sum.splits prod.splits)

lemma makeAuthenticatedRequest_null_data:
  "operation w = (Inr r, w') \<Longrightarrow> data r = None \<Longrightarrow>
   \<exists>e. fst (makeAuthenticatedRequest operation w) = Inl e"
  by (auto simp: makeAuthenticatedRequest_def split: sum.splits option.splits)

lemma makeAuthenticatedRequest_deleteNote_operation:
  "\<exists>e. fst (makeAuthenticatedRequest (deleteNote_operation i) w) = Inl e"
proof (cases "getAuthenticatedSession w")
  case (Inl e)
  then show ?thesis by (simp add: makeAuthenticatedRequest_no_session)
next
  case (Inr s)
  obtain x w' where op: "deleteNote_operation i w = (x, w')"
    by (cases "deleteNote_operation i w")
  show ?thesis
  proof (cases x)
    case (Inl e)
    with op Inr show ?thesis by (simp add: makeAuthenticatedRequest_def)
  next
    case r: (Inr r)
    with op have "data r = None" by (simp add: deleteNote_operation_data)
    with op r show ?thesis using makeAuthenticatedRequest_null_data by blast
  qed
qed

lemma deleteNote_throws: "\<exists>e. fst (deleteNote i w) = Inl e"
proof (cases "i = []")
  case True
  then show ?thesis by (simp add: deleteNote_def)
next
  case False
  obtain e where "fst (makeAuthenticatedRequest (deleteNote_operation i) w) = Inl e"
    using makeAuthenticatedRequest_deleteNote_operation by blast
  with False show ?thesis
    by (cases "makeAuthenticatedRequest (deleteNote_operation i) w") (auto simp: deleteNote_def)
qed

lemma deleteNote_remote_ok:
  assumes "i \<noteq> []" and "getAuthenticatedSession w = Inr s" and "session_user s = Some u"
    and "fault w = None"
  shows "deleteNote i w =
           (Inl NoDataReturned,
            w\<lparr>requests := requests w @ [Delete i (uid u)],
              notes_table := filter (\<lambda>n. \<not> eq_id_user i (uid u) n) (notes_table w)\<rparr>)"
proof -
  from assms(2,3) have au: "auth_uid w = Some (uid u)" and su: "session_user_id s = Inr (uid u)"
    using valid_session_user by fastforce+
  show ?thesis
    using assms(1,2,4) su
    by (simp add: deleteNote_def makeAuthenticatedRequest_def deleteNote_operation_def
        with_session_def with_user_id_def delete_rows_def sent_def Let_def own_rows [OF au])
qed

text \<open>
  Claim C2. The operation that \<open>deleteNote\<close> passes to \<open>makeAuthenticatedRequest\<close>
  answers with \<open>data = null\<close> whenever it answers, and under a valid session it does
  answer; \<open>makeAuthenticatedRequest\<close> throws
  whenever its operation answers with \<open>data = null\<close>; so \<open>deleteNote\<close> throws on every
  call. With a non-empty id, a valid session and a remote that runs the delete without
  error, it throws "No data returned from the server." after the rows are deleted.
\<close>

theorem deleteNote_always_throws:
  "(\<forall>r w'. deleteNote_operation i w = (Inr r, w') \<longrightarrow> data r = None)
   \<and> (getAuthenticatedSession w = Inr s \<longrightarrow>
        (\<exists>r w'. deleteNote_operation i w = (Inr r, w') \<and> data r = None))
   \<and> (\<forall>operation r w'. operation w = (Inr r, w') \<and> data r = None
          \<longrightarrow> (\<exists>e. fst (makeAuthenticatedRequest operation w) = Inl e))
   \<and> (\<exists>e. fst (deleteNote i w) = Inl e)
   \<and> (i \<noteq> [] \<and> getAuthenticatedSession w = Inr s \<and> session_user s = Some u \<and> fault w = None
        \<longrightarrow> deleteNote i w =
             (Inl NoDataReturned,
              w\<lparr>requests := requests w @ [Delete i (uid u)],
                notes_table := filter (\<lambda>n. \<not> eq_id_user i (uid u) n) (notes_table w)\<rparr>))"
proof -
  have "\<exists>r w'. deleteNote_operation i w = (Inr r, w') \<and> data r = None"
    if "getAuthenticatedSession w = Inr s"
  proof -
    from that obtain v where "session_user_id s = Inr v" using valid_session_user by blast
    with that show ?thesis
      by (cases "delete_rows i v w")
         (simp add: deleteNote_operation_def with_session_def with_user_id_def)
  qed
  then show ?thesis
    using deleteNote_operation_data makeAuthenticatedRequest_null_data deleteNote_throws
      deleteNote_remote_ok
    by blast
qed

theorem deleteNote_always_throws_witness:
  "lit ''a1'' \<noteq> [] \<and> getAuthenticatedSession world0 = Inr alice_session
   \<and> session_user alice_session = Some alice \<and> fault world0 = None
   \<and> fst (deleteNote (lit ''a1'') world0) = Inl NoDataReturned
   \<and> notes_table (snd (deleteNote (lit ''a1'') world0)) = [note_b1, note_a2]"
proof -
  have h: "lit ''a1'' \<noteq> [] \<and> getAuthenticatedSession world0 = Inr alice_session
           \<and> session_user alice_session = Some alice \<and> fault world0 = None"
    by (simp add: world0_session) (simp add: world0_defs lit_def)
  with deleteNote_always_throws [of "lit ''a1''" world0 alice_session alice]
  have "deleteNote (lit ''a1'') world0 =
          (Inl NoDataReturned,
           world0\<lparr>requests := requests world0 @ [Delete (lit ''a1'') (uid alice)],
                  notes_table := filter (\<lambda>n. \<not> eq_id_user (lit ''a1'') (uid alice) n)
                                   (notes_table world0)\<rparr>)"
    by blast
  moreover have "filter (\<lambda>n. \<not> eq_id_user (lit ''a1'') (uid alice) n) (notes_table world0)
                 = [note_b1, note_a2]"
    by (simp add: eq_id_user_def world0_defs lit_def)
  ultimately show ?thesis using h by simp
qed

section \<open>The operations under a valid session, without one, and under a remote fault\<close>

lemma getAuthenticatedSession_error:
  "getAuthenticatedSession w = Inl e \<Longrightarrow> is_SessionError e"
  by (auto simp: getAuthenticatedSession_def Let_def split: option.splits if_splits)

lemma SessionError_not_Validation: "is_SessionError e \<Longrightarrow> \<not> is_ValidationError e"
  by (cases e) simp_all

lemma translate_error_not_Validation: "\<not> is_ValidationError (translate_error e)"
  by (simp add: translate_error_def)

text \<open>What \<open>makeAuthenticatedRequest\<close> makes of an answer.\<close>

lemma makeAuthenticatedRequest_valid:
  assumes "getAuthenticatedSession w = Inr s" and "session_user s = Some u"
  shows "makeAuthenticatedRequest
           (with_session (\<lambda>session. with_user_id session (\<lambda>u w. returned (req u w)))) w =
         (case req (uid u) w of
            (r, w') \<Rightarrow>
              (case error r of
                 Some e \<Rightarrow> (Inl (translate_error e), w')
               | None \<Rightarrow> (case data r of None \<Rightarrow> (Inl NoDataReturned, w') | Some d \<Rightarrow> (Inr d, w'))))"
proof -
  from assms have su: "session_user_id s = Inr (uid u)"
    using valid_session_user by fastforce
  show ?thesis
    using assms(1) su
    by (cases "req (uid u) w")
       (simp add: makeAuthenticatedRequest_def with_session_def with_user_id_def returned_def)
qed

lemma getNotes_valid:
  assumes "getAuthenticatedSession w = Inr s"
  shows "getNotes w =
         (case select_all_ordered w of
            (r, w') \<Rightarrow>
              (case error r of
                 Some e \<Rightarrow> (Inl (translate_error e), w')
               | None \<Rightarrow> (case data r of None \<Rightarrow> (Inl NoDataReturned, w') | Some d \<Rightarrow> (Inr d, w'))))"
  using assms
  by (cases "select_all_ordered w")
     (simp add: getNotes_def makeAuthenticatedRequest_def with_session_def returned_def)


lemma createNote_valid:
  assumes "trim t \<noteq> []" "length t \<le> 100" "length c \<le> 10000"
    and "getAuthenticatedSession w = Inr s" and "session_user s = Some u"
  shows "createNote t c w =
         (case insert_single (trim t) (trim c) (uid u) w of
            (r, w') \<Rightarrow>
              (case error r of
                 Some e \<Rightarrow> (Inl (translate_error e), w')
               | None \<Rightarrow> (case data r of None \<Rightarrow> (Inl NoDataReturned, w') | Some d \<Rightarrow> (Inr d, w'))))"
  using assms(1-3) makeAuthenticatedRequest_valid [OF assms(4,5), of "\<lambda>u. insert_single (trim t) (trim c) u"]
  by (simp add: createNote_def)

lemma createNote_no_session:
  assumes "trim t \<noteq> []" "length t \<le> 100" "length c \<le> 10000"
    and "getAuthenticatedSession w = Inl e"
  shows "createNote t c w = (Inl e, w)"
  using assms by (simp add: createNote_def makeAuthenticatedRequest_no_session)

lemma updateNote_valid:
  assumes "i \<noteq> []" "trim t \<noteq> []" "length t \<le> 100" "length c \<le> 10000"
    and "getAuthenticatedSession w = Inr s" and "session_user s = Some u"
  shows "updateNote i t c w =
         (case update_single (trim t) (trim c) (date_now w) i (uid u) w of
            (r, w') \<Rightarrow>
              (case error r of
                 Some e \<Rightarrow> (Inl (translate_error e), w')
               | None \<Rightarrow> (case data r of None \<Rightarrow> (Inl NoDataReturned, w') | Some d \<Rightarrow> (Inr d, w'))))"
  using assms(1-4) makeAuthenticatedRequest_valid [OF assms(5,6),
      of "\<lambda>u w. update_single (trim t) (trim c) (date_now w) i u w"]
  by (simp add: updateNote_def)

lemma updateNote_no_session:
  assumes "i \<noteq> []" "trim t \<noteq> []" "length t \<le> 100" "length c \<le> 10000"
    and "getAuthenticatedSession w = Inl e"
  shows "updateNote i t c w = (Inl e, w)"
  using assms by (simp add: updateNote_def makeAuthenticatedRequest_no_session)


lemma deleteNote_valid:
  assumes "i \<noteq> []" and "getAuthenticatedSession w = Inr s" and "session_user s = Some u"
  shows "deleteNote i w =
         (case delete_rows i (uid u) w of
            (r, w') \<Rightarrow>
              (case error r of
                 Some e \<Rightarrow> (Inl (translate_error e), w')
               | None \<Rightarrow> (Inl NoDataReturned, w')))"
proof -
  from assms have su: "session_user_id s = Inr (uid u)"
    using valid_session_user by fastforce
  show ?thesis
    using assms(1,2) su
    by (cases "delete_rows i (uid u) w")
       (simp add: deleteNote_def makeAuthenticatedRequest_def deleteNote_operation_def
        with_session_def with_user_id_def split: option.splits)
qed

lemma select_all_ordered_fault:
  "fault w = Some e \<Longrightarrow> select_all_ordered w = (failed e, sent SelectAll w)"
  by (simp add: select_all_ordered_def)

lemma insert_single_fault:
  "fault w = Some e \<Longrightarrow> insert_single t c u w = (failed e, sent (Insert t c u) w)"
  by (simp add: insert_single_def)

lemma update_single_fault:
  "fault w = Some e \<Longrightarrow> update_single t c ts i u w = (failed e, sent (Update i u t c) w)"
  by (simp add: update_single_def)

lemma delete_rows_fault:
  "fault w = Some e \<Longrightarrow> delete_rows i u w = (failed e, sent (Delete i u) w)"
  by (simp add: delete_rows_def)

lemma facade_fault:
  assumes "getAuthenticatedSession w = Inr s" and "session_user s = Some u" and "fault w = Some e"
  shows "getNotes w = (Inl (translate_error e), sent SelectAll w)"
    and "trim t \<noteq> [] \<Longrightarrow> length t \<le> 100 \<Longrightarrow> length c \<le> 10000 \<Longrightarrow>
         createNote t c w = (Inl (translate_error e), sent (Insert (trim t) (trim c) (uid u)) w)"
    and "i \<noteq> [] \<Longrightarrow> trim t \<noteq> [] \<Longrightarrow> length t \<le> 100 \<Longrightarrow> length c \<le> 10000 \<Longrightarrow>
         updateNote i t c w = (Inl (translate_error e), sent (Update i (uid u) (trim t) (trim c)) w)"
    and "i \<noteq> [] \<Longrightarrow> deleteNote i w = (Inl (translate_error e), sent (Delete i (uid u)) w)"
  using assms
  by (simp_all add: getNotes_valid createNote_valid updateNote_valid deleteNote_valid
      select_all_ordered_fault insert_single_fault update_single_fault delete_rows_fault failed_def)

section \<open>verifyNoteOwnership\<close>

lemma verifyNoteOwnership_returns: "\<exists>b. fst (verifyNoteOwnership i w) = Inr b"
  by (auto simp: verifyNoteOwnership_def try_catch_def split: sum.splits prod.splits)

lemma verifyNoteOwnership_no_session:
  "getAuthenticatedSession w = Inl e \<Longrightarrow> verifyNoteOwnership i w = (Inr False, w)"
  by (simp add: verifyNoteOwnership_def try_catch_def with_session_no_session)

lemma verifyNoteOwnership_valid:
  assumes "getAuthenticatedSession w = Inr s" and "session_user s = Some u"
  shows "verifyNoteOwnership i w =
     (Inr (fault w = None \<and> (\<exists>n. filter (eq_id_user i (uid u)) (notes_table w) = [n])),
      sent (SelectOwner i (uid u)) w)"
proof -
  from assms have au: "auth_uid w = Some (uid u)" and su: "session_user_id s = Inr (uid u)"
    using valid_session_user by fastforce+
  show ?thesis
    using assms(1) su
    by (cases "filter (eq_id_user i (uid u)) (notes_table w)"; cases "fault w")
       (auto simp: verifyNoteOwnership_def try_catch_def with_session_def with_user_id_def
        select_owner_single_def Let_def own_rows [OF au] single_def succeeded_def failed_def
        split: list.splits)
qed

lemma verifyNoteOwnership_true:
  assumes "fst (verifyNoteOwnership i w) = Inr True"
  shows "\<exists>s u n. getAuthenticatedSession w = Inr s \<and> session_user s = Some u \<and> fault w = None
           \<and> n \<in> set (notes_table w) \<and> note_id n = i \<and> user_id n = uid u"
proof (cases "getAuthenticatedSession w")
  case (Inl e)
  with assms show ?thesis by (simp add: verifyNoteOwnership_no_session)
next
  case (Inr s)
  then obtain u where u: "session_user s = Some u" using valid_session_user by blast
  from assms verifyNoteOwnership_valid [OF Inr u, of i]
  obtain n where f: "fault w = None" and n: "filter (eq_id_user i (uid u)) (notes_table w) = [n]"
    by auto
  from n have "n \<in> set (filter (eq_id_user i (uid u)) (notes_table w))" by simp
  then have "n \<in> set (notes_table w) \<and> note_id n = i \<and> user_id n = uid u"
    by (simp add: eq_id_user_def)
  with Inr u f show ?thesis by blast
qed

text \<open>
  Claim C9. \<open>verifyNoteOwnership\<close> returns a boolean for every id and in every world and
  never throws: without a valid session and under any remote error the answer is
  \<open>false\<close>, and the answer is \<open>true\<close> only when the table holds a row with that id whose
  owner is the user of the current session.
\<close>

theorem verifyNoteOwnership_never_throws:
  "(\<exists>b. fst (verifyNoteOwnership i w) = Inr b)
   \<and> (\<forall>e. getAuthenticatedSession w = Inl e \<longrightarrow> fst (verifyNoteOwnership i w) = Inr False)
   \<and> (fault w \<noteq> None \<longrightarrow> fst (verifyNoteOwnership i w) = Inr False)
   \<and> (fst (verifyNoteOwnership i w) = Inr True \<longrightarrow>
        (\<exists>s u n. getAuthenticatedSession w = Inr s \<and> session_user s = Some u
                 \<and> n \<in> set (notes_table w) \<and> note_id n = i \<and> user_id n = uid u))"
proof -
  have "fault w \<noteq> None \<longrightarrow> fst (verifyNoteOwnership i w) = Inr False"
  proof (cases "getAuthenticatedSession w")
    case (Inl e)
    then show ?thesis by (simp add: verifyNoteOwnership_no_session)
  next
    case (Inr s)
    then obtain u where "session_user s = Some u" using valid_session_user by blast
    with Inr show ?thesis by (simp add: verifyNoteOwnership_valid)
  qed
  moreover have "\<forall>e. getAuthenticatedSession w = Inl e \<longrightarrow> fst (verifyNoteOwnership i w) = Inr False"
    by (simp add: verifyNoteOwnership_no_session)
  moreover have "fst (verifyNoteOwnership i w) = Inr True \<longrightarrow>
        (\<exists>s u n. getAuthenticatedSession w = Inr s \<and> session_user s = Some u
                 \<and> n \<in> set (notes_table w) \<and> note_id n = i \<and> user_id n = uid u)"
    using verifyNoteOwnership_true by blast
  ultimately show ?thesis using verifyNoteOwnership_returns by blast
qed

theorem verifyNoteOwnership_never_throws_witness:
  "fst (verifyNoteOwnership (lit ''a1'') world0) = Inr True
   \<and> (\<exists>s u n. getAuthenticatedSession world0 = Inr s \<and> session_user s = Some u
              \<and> n \<in> set (notes_table world0) \<and> note_id n = lit ''a1'' \<and> user_id n = uid u)
   \<and> fst (verifyNoteOwnership (lit ''b1'') world0) = Inr False
   \<and> fault (world0\<lparr>fault := Some PGRST116\<rparr>) \<noteq> None
   \<and> fst (verifyNoteOwnership (lit ''a1'') (world0\<lparr>fault := Some PGRST116\<rparr>)) = Inr False"
proof -
  have u: "session_user alice_session = Some alice" by (simp add: alice_session_def)
  have t: "fst (verifyNoteOwnership (lit ''a1'') world0) = Inr True"
    by (simp add: verifyNoteOwnership_valid [OF world0_session u])
       (simp add: world0_defs eq_id_user_def lit_def)
  have f: "fst (verifyNoteOwnership (lit ''b1'') world0) = Inr False"
    by (simp add: verifyNoteOwnership_valid [OF world0_session u])
       (simp add: world0_defs eq_id_user_def lit_def)
  have g: "fault (world0\<lparr>fault := Some PGRST116\<rparr>) \<noteq> None" by simp
  from t f g verifyNoteOwnership_never_throws [of "lit ''a1''" world0]
    verifyNoteOwnership_never_throws [of "lit ''a1''" "world0\<lparr>fault := Some PGRST116\<rparr>"]
  show ?thesis by blast
qed

section \<open>signOut\<close>








section \<open>Translation of remote errors\<close>

lemma translate_error_cases:
  "(code e = Some (lit ''PGRST301'') \<or> message_includes e (lit ''JWT'')
      \<longrightarrow> translate_error e = AuthenticationFailed)
   \<and> (\<not> (code e = Some (lit ''PGRST301'') \<or> message_includes e (lit ''JWT''))
       \<and> (code e = Some (lit ''PGRST116'') \<or> message_includes e (lit ''RLS''))
      \<longrightarrow> translate_error e = AccessDenied)
   \<and> (\<not> (code e = Some (lit ''PGRST301'') \<or> message_includes e (lit ''JWT''))
       \<and> \<not> (code e = Some (lit ''PGRST116'') \<or> message_includes e (lit ''RLS''))
      \<longrightarrow> translate_error e =
            Remote (case message e of
                      None \<Rightarrow> lit ''An error occurred while processing your request.''
                    | Some m \<Rightarrow> if m = [] then lit ''An error occurred while processing your request.''
                                else m))"
  by (simp add: translate_error_def or_else_def split: option.splits)

lemma getAuthenticatedSession_cong:
  "getSession w' = getSession w \<Longrightarrow> date_now w' = date_now w \<Longrightarrow>
   getAuthenticatedSession w' = getAuthenticatedSession w"
  by (simp add: getAuthenticatedSession_def Let_def cong: option.case_cong if_cong)

lemma getAuthenticatedSession_fault [simp]:
  "getAuthenticatedSession (w\<lparr>fault := f\<rparr>) = getAuthenticatedSession w"
  by (rule getAuthenticatedSession_cong) simp_all

text \<open>
  Claim C6, amended. Under a valid session, a remote error \<open>e\<close> makes every operation
  whose input passes validation throw the translation of \<open>e\<close>: the authentication
  failure when \<open>e\<close> has code PGRST301 or a message that includes "JWT"; otherwise the
  access denial when \<open>e\<close> has code PGRST116 or a message that includes "RLS"; otherwise
  a remote error whose message is the message of \<open>e\<close> verbatim when that is present and
  not empty, and "An error occurred while processing your request." when it is not.
\<close>

theorem remote_error_translation:
  assumes "getAuthenticatedSession w = Inr s" and "fault w = Some e"
  shows "fst (getNotes w) = Inl (translate_error e)
   \<and> (trim t \<noteq> [] \<and> length t \<le> 100 \<and> length c \<le> 10000
        \<longrightarrow> fst (createNote t c w) = Inl (translate_error e))
   \<and> (i \<noteq> [] \<and> trim t \<noteq> [] \<and> length t \<le> 100 \<and> length c \<le> 10000
        \<longrightarrow> fst (updateNote i t c w) = Inl (translate_error e))
   \<and> (i \<noteq> [] \<longrightarrow> fst (deleteNote i w) = Inl (translate_error e))
   \<and> (code e = Some (lit ''PGRST301'') \<or> message_includes e (lit ''JWT'')
        \<longrightarrow> translate_error e = AuthenticationFailed \<and> is_AuthError (translate_error e))
   \<and> (\<not> (code e = Some (lit ''PGRST301'') \<or> message_includes e (lit ''JWT''))
       \<and> (code e = Some (lit ''PGRST116'') \<or> message_includes e (lit ''RLS''))
        \<longrightarrow> translate_error e = AccessDenied \<and> is_AccessDeniedError (translate_error e))
   \<and> (\<not> (code e = Some (lit ''PGRST301'') \<or> message_includes e (lit ''JWT''))
       \<and> \<not> (code e = Some (lit ''PGRST116'') \<or> message_includes e (lit ''RLS''))
        \<longrightarrow> is_RemoteError (translate_error e)
            \<and> error_message (translate_error e) =
                (case message e of
                   None \<Rightarrow> lit ''An error occurred while processing your request.''
                 | Some m \<Rightarrow> if m = [] then lit ''An error occurred while processing your request.''
                             else m))"
proof -
  from assms(1) obtain u where u: "session_user s = Some u" using valid_session_user by blast
  note f = facade_fault [OF assms(1) u assms(2)]
  have ops: "fst (getNotes w) = Inl (translate_error e)
     \<and> (trim t \<noteq> [] \<and> length t \<le> 100 \<and> length c \<le> 10000
          \<longrightarrow> fst (createNote t c w) = Inl (translate_error e))
     \<and> (i \<noteq> [] \<and> trim t \<noteq> [] \<and> length t \<le> 100 \<and> length c \<le> 10000
          \<longrightarrow> fst (updateNote i t c w) = Inl (translate_error e))
     \<and> (i \<noteq> [] \<longrightarrow> fst (deleteNote i w) = Inl (translate_error e))"
    by (simp add: f)
  show ?thesis
    using ops translate_error_cases [of e] by auto
qed

lemma translate_statement_timeout:
  "translate_error statement_timeout = Remote (lit ''canceling statement due to statement timeout'')"
  by (simp add: translate_error_def statement_timeout_def message_includes_def or_else_def lit_def)

lemma translate_empty_message:
  "translate_error empty_message = Remote (lit ''An error occurred while processing your request.'')"
  by (simp add: translate_error_def empty_message_def message_includes_def or_else_def lit_def)

lemma translate_no_single_row_jwt:
  "translate_error no_single_row_jwt = AuthenticationFailed"
  by (simp add: translate_error_def no_single_row_jwt_def message_includes_def lit_def)

theorem remote_error_translation_witness:
  "getAuthenticatedSession (world0\<lparr>fault := Some statement_timeout\<rparr>) = Inr alice_session
   \<and> fault (world0\<lparr>fault := Some statement_timeout\<rparr>) = Some statement_timeout
   \<and> fst (getNotes (world0\<lparr>fault := Some statement_timeout\<rparr>))
       = Inl (Remote (lit ''canceling statement due to statement timeout''))
   \<and> fst (deleteNote (lit ''a1'') (world0\<lparr>fault := Some statement_timeout\<rparr>))
       = Inl (Remote (lit ''canceling statement due to statement timeout''))"
proof -
  have h: "getAuthenticatedSession (world0\<lparr>fault := Some statement_timeout\<rparr>) = Inr alice_session"
    by (simp add: world0_session)
  have g: "fault (world0\<lparr>fault := Some statement_timeout\<rparr>) = Some statement_timeout" by simp
  have "lit ''a1'' \<noteq> []" by (simp add: lit_def)
  with remote_error_translation [OF h g, of _ _ "lit ''a1''"] h g
  show ?thesis by (simp add: translate_statement_timeout)
qed

text \<open>
  Claim C6, as stated, fails at two inputs: a remote error with an empty message does
  not surface with its own message but with the fixed fallback text, and an error that
  carries code PGRST116 together with a message that includes "JWT" is translated to the
  authentication failure, not to the access denial.
\<close>

theorem remote_error_fallback_and_precedence:
  "message empty_message = Some []
   \<and> fst (getNotes (world0\<lparr>fault := Some empty_message\<rparr>))
       = Inl (Remote (lit ''An error occurred while processing your request.''))
   \<and> error_message (Remote (lit ''An error occurred while processing your request.'')) \<noteq> []
   \<and> code no_single_row_jwt = Some (lit ''PGRST116'')
   \<and> fst (getNotes (world0\<lparr>fault := Some no_single_row_jwt\<rparr>)) = Inl AuthenticationFailed
   \<and> \<not> is_AccessDeniedError AuthenticationFailed"
proof -
  have u: "session_user alice_session = Some alice" by (simp add: alice_session_def)
  have h: "getAuthenticatedSession (world0\<lparr>fault := f\<rparr>) = Inr alice_session" for f
    by (simp add: world0_session)
  have 1: "fst (getNotes (world0\<lparr>fault := Some empty_message\<rparr>))
       = Inl (Remote (lit ''An error occurred while processing your request.''))"
    using facade_fault(1) [OF h u, of "Some empty_message" empty_message]
    by (simp add: translate_empty_message)
  have 2: "fst (getNotes (world0\<lparr>fault := Some no_single_row_jwt\<rparr>)) = Inl AuthenticationFailed"
    using facade_fault(1) [OF h u, of "Some no_single_row_jwt" no_single_row_jwt]
    by (simp add: translate_no_single_row_jwt)
  show ?thesis using 1 2 by (simp add: empty_message_def no_single_row_jwt_def lit_def)
qed

section \<open>Input validation of createNote and updateNote\<close>

lemma trim_empty_iff: "trim s = [] \<longleftrightarrow> (\<forall>x \<in> set s. isWhiteSpace x)"
proof -
  have "trim s = [] \<longleftrightarrow> (\<forall>x \<in> set (dropWhile isWhiteSpace s). isWhiteSpace x)"
    by (simp add: trim_def trimEnd_def trimStart_def dropWhile_eq_Nil_conv)
  also have "\<dots> \<longleftrightarrow> dropWhile isWhiteSpace s = []"
  proof
    assume all: "\<forall>x \<in> set (dropWhile isWhiteSpace s). isWhiteSpace x"
    show "dropWhile isWhiteSpace s = []"
    proof (rule ccontr)
      assume ne: "dropWhile isWhiteSpace s \<noteq> []"
      then have "\<not> isWhiteSpace (hd (dropWhile isWhiteSpace s))" by (rule hd_dropWhile)
      moreover from ne have "hd (dropWhile isWhiteSpace s) \<in> set (dropWhile isWhiteSpace s)"
        by simp
      ultimately show False using all by blast
    qed
  qed (auto dest: set_dropWhileD)
  also have "\<dots> \<longleftrightarrow> (\<forall>x \<in> set s. isWhiteSpace x)"
    by (simp add: dropWhile_eq_Nil_conv)
  finally show ?thesis .
qed

lemma letter_a_not_space: "\<not> isWhiteSpace letter_a"
  by (simp add: isWhiteSpace_def letter_a_def)

lemma isWhiteSpace_space: "isWhiteSpace space"
  by (simp add: isWhiteSpace_def space_def)

lemma dropWhile_replicate_append:
  "P x \<Longrightarrow> dropWhile P (replicate n x @ ys) = dropWhile P ys"
  by (induction n) simp_all

lemma trim_padded: "trim (letter_a # replicate n space) = [letter_a]"
proof -
  have "dropWhile isWhiteSpace (replicate n space @ [letter_a]) = [letter_a]"
    using dropWhile_replicate_append [of isWhiteSpace space n "[letter_a]"]
    by (simp add: isWhiteSpace_space letter_a_not_space)
  then show ?thesis
    by (simp add: trim_def trimStart_def trimEnd_def letter_a_not_space)
qed

lemma createNote_invalid:
  "trim t = [] \<Longrightarrow> createNote t c w = (Inl TitleRequired, w)"
  "trim t \<noteq> [] \<Longrightarrow> length t > 100 \<Longrightarrow> createNote t c w = (Inl TitleTooLong, w)"
  "trim t \<noteq> [] \<Longrightarrow> length t \<le> 100 \<Longrightarrow> length c > 10000 \<Longrightarrow>
   createNote t c w = (Inl ContentTooLong, w)"
  by (simp_all add: createNote_def)

lemma createNote_invalid_error:
  assumes "trim t = [] \<or> length t > 100 \<or> length c > 10000"
  shows "\<exists>e. createNote t c w = (Inl e, w) \<and> is_ValidationError e"
  using assms by (auto simp: createNote_def)

lemma updateNote_invalid_error:
  assumes "i = [] \<or> trim t = [] \<or> length t > 100 \<or> length c > 10000"
  shows "\<exists>e. updateNote i t c w = (Inl e, w) \<and> is_ValidationError e"
  using assms by (auto simp: updateNote_def)

lemma answer_not_Validation:
  "(case rw of
      (r, w') \<Rightarrow>
        (case error r of
           Some e \<Rightarrow> (Inl (translate_error e), w')
         | None \<Rightarrow> (case data r of None \<Rightarrow> (Inl NoDataReturned, w') | Some d \<Rightarrow> (Inr d, w'))))
     = (Inl e, w'') \<Longrightarrow> \<not> is_ValidationError e"
  by (auto simp: translate_error_not_Validation split: prod.splits option.splits)

lemma createNote_valid_error:
  assumes "trim t \<noteq> []" "length t \<le> 100" "length c \<le> 10000"
    and "fst (createNote t c w) = Inl e"
  shows "\<not> is_ValidationError e"
proof (cases "getAuthenticatedSession w")
  case (Inl e')
  with assms have "e = e'" by (simp add: createNote_no_session)
  with Inl show ?thesis
    using getAuthenticatedSession_error SessionError_not_Validation by blast
next
  case (Inr s)
  then obtain u where u: "session_user s = Some u" using valid_session_user by blast
  from assms(4) obtain w' where "createNote t c w = (Inl e, w')"
    by (cases "createNote t c w") simp
  then show ?thesis
    unfolding createNote_valid [OF assms(1-3) Inr u] by (rule answer_not_Validation)
qed

text \<open>
  Claim C4. \<open>createNote\<close> throws a validation error if and only if the title trims to
  the empty string (it is empty or consists of white space only), the title has more
  than 100 code units, or the content has more than 10,000; then it leaves the world as
  it was, so no request is sent. In particular \<open>create("", "x")\<close>,
  \<open>create("a"*101, "")\<close> and \<open>create("ok", "a"*10001)\<close> throw validation errors.
\<close>

theorem createNote_validation:
  "((\<exists>e. fst (createNote t c w) = Inl e \<and> is_ValidationError e)
      \<longleftrightarrow> (trim t = [] \<or> length t > 100 \<or> length c > 10000))
   \<and> (trim t = [] \<longleftrightarrow> (\<forall>x \<in> set t. isWhiteSpace x))
   \<and> (trim t = [] \<or> length t > 100 \<or> length c > 10000 \<longrightarrow> snd (createNote t c w) = w)
   \<and> (\<exists>e. createNote [] (lit ''x'') w = (Inl e, w) \<and> is_ValidationError e)
   \<and> (\<exists>e. createNote (replicate 101 letter_a) [] w = (Inl e, w) \<and> is_ValidationError e)
   \<and> (\<exists>e. createNote (lit ''ok'') (replicate 10001 letter_a) w = (Inl e, w) \<and> is_ValidationError e)"
proof -
  have iff: "(\<exists>e. fst (createNote t c w) = Inl e \<and> is_ValidationError e)
      \<longleftrightarrow> (trim t = [] \<or> length t > 100 \<or> length c > 10000)"
  proof
    assume "\<exists>e. fst (createNote t c w) = Inl e \<and> is_ValidationError e"
    then show "trim t = [] \<or> length t > 100 \<or> length c > 10000"
      using createNote_valid_error [of t c w] by (meson not_le)
  next
    assume "trim t = [] \<or> length t > 100 \<or> length c > 10000"
    then obtain e where "createNote t c w = (Inl e, w) \<and> is_ValidationError e"
      using createNote_invalid_error by blast
    then show "\<exists>e. fst (createNote t c w) = Inl e \<and> is_ValidationError e" by auto
  qed
  have unchanged: "trim t = [] \<or> length t > 100 \<or> length c > 10000 \<longrightarrow> snd (createNote t c w) = w"
    using createNote_invalid_error [of t c w] by auto
  have 1: "\<exists>e. createNote [] (lit ''x'') w = (Inl e, w) \<and> is_ValidationError e"
    by (rule createNote_invalid_error) (simp add: trim_empty_iff)
  have 2: "\<exists>e. createNote (replicate 101 letter_a) [] w = (Inl e, w) \<and> is_ValidationError e"
    by (rule createNote_invalid_error) simp
  have 3: "\<exists>e. createNote (lit ''ok'') (replicate 10001 letter_a) w = (Inl e, w) \<and> is_ValidationError e"
    by (rule createNote_invalid_error) simp
  show ?thesis using iff unchanged 1 2 3 trim_empty_iff [of t] by blast
qed

theorem createNote_validation_witness:
  "list_all isWhiteSpace [space, space]
   \<and> fst (createNote [space, space] (lit ''x'') world0) = Inl TitleRequired
   \<and> snd (createNote [space, space] (lit ''x'') world0) = world0
   \<and> fst (createNote (replicate 101 letter_a) [] world0) = Inl TitleTooLong
   \<and> fst (createNote (lit ''ok'') (replicate 10001 letter_a) world0) = Inl ContentTooLong"
proof -
  have ws: "\<forall>x \<in> set [space, space]. isWhiteSpace x" by (simp add: isWhiteSpace_space)
  with createNote_validation [of "[space, space]" "lit ''x''" world0]
  have t: "trim [space, space] = []" and s: "snd (createNote [space, space] (lit ''x'') world0) = world0"
    by blast+
  have 2: "trim (replicate 101 letter_a) \<noteq> []"
    by (simp add: trim_empty_iff letter_a_not_space)
  have 3: "trim (lit ''ok'') \<noteq> []"
    by (simp add: trim_empty_iff lit_def isWhiteSpace_def)
  have la: "list_all isWhiteSpace [space, space]" by (simp add: isWhiteSpace_space)
  show ?thesis using la t s 2 3 by (simp add: createNote_invalid lit_def)
qed

section \<open>The session check before every request\<close>




lemma getNotes_ok:
  assumes "getAuthenticatedSession w = Inr s" and "fault w = None"
  shows "getNotes w =
           (Inr (order_desc updated_at (filter (policy_own w) (notes_table w))), sent SelectAll w)"
  using assms by (simp add: getNotes_valid select_all_ordered_def succeeded_def)



section \<open>getNotes\<close>

lemma mset_order_desc: "mset (order_desc f rows) = mset rows"
  by (simp add: order_desc_def)

lemma sorted_order_desc: "sorted_wrt (\<lambda>a b. f b \<le> f a) (order_desc f rows)"
proof -
  have "sorted (map f (sort_key f rows))" by (rule sorted_sort_key)
  then have "sorted_wrt (\<lambda>a b. f a \<le> f b) (sort_key f rows)"
    by (simp add: sorted_wrt_map)
  then show ?thesis by (simp add: order_desc_def sorted_wrt_rev)
qed

lemma filter_policy_own:
  "auth_uid w = Some v \<Longrightarrow> filter (policy_own w) rows = filter (\<lambda>n. user_id n = v) rows"
  by (rule filter_cong) (auto simp: policy_own_def)

lemma getNotes_returns:
  assumes "getAuthenticatedSession w = Inr s" and "session_user s = Some u"
    and "fst (getNotes w) = Inr ns"
  shows "ns = order_desc updated_at (filter (\<lambda>n. user_id n = uid u) (notes_table w))"
proof (cases "fault w")
  case None
  from assms(1,2) have "auth_uid w = Some (uid u)" using valid_session_user by fastforce
  with assms None show ?thesis by (simp add: getNotes_ok filter_policy_own)
next
  case (Some e)
  with assms show ?thesis by (simp add: facade_fault(1))
qed

text \<open>
  Claim C8. Under a valid session, \<open>getNotes\<close> returns whenever the remote select
  answers without error, and what it returns is exactly the rows of the table whose
  \<open>user_id\<close> is the id of the session's user, each once, in descending order of
  \<open>updated_at\<close>.
\<close>

theorem getNotes_own_notes_sorted:
  assumes "getAuthenticatedSession w = Inr s" and "session_user s = Some u"
  shows "(fault w = None \<longrightarrow> (\<exists>ns. fst (getNotes w) = Inr ns))
     \<and> (\<forall>ns. fst (getNotes w) = Inr ns \<longrightarrow>
           mset ns = mset (filter (\<lambda>n. user_id n = uid u) (notes_table w))
           \<and> sorted_wrt (\<lambda>a b. updated_at b \<le> updated_at a) ns)"
proof -
  have "fault w = None \<longrightarrow> (\<exists>ns. fst (getNotes w) = Inr ns)"
    using assms(1) by (simp add: getNotes_ok)
  moreover have "mset ns = mset (filter (\<lambda>n. user_id n = uid u) (notes_table w))
           \<and> sorted_wrt (\<lambda>a b. updated_at b \<le> updated_at a) ns"
    if "fst (getNotes w) = Inr ns" for ns
    unfolding getNotes_returns [OF assms that]
    by (simp add: mset_order_desc sorted_order_desc)
  ultimately show ?thesis by blast
qed

theorem getNotes_own_notes_sorted_witness:
  "getAuthenticatedSession world0 = Inr alice_session
   \<and> session_user alice_session = Some alice
   \<and> fault world0 = None
   \<and> fst (getNotes world0) = Inr [note_a2, note_a1]
   \<and> mset [note_a2, note_a1] = mset (filter (\<lambda>n. user_id n = uid alice) (notes_table world0))
   \<and> sorted_wrt (\<lambda>a b. updated_at b \<le> updated_at a) [note_a2, note_a1]"
proof -
  have u: "session_user alice_session = Some alice" by (simp add: alice_session_def)
  have f: "fault world0 = None" by (simp add: world0_def)
  have g: "fst (getNotes world0) = Inr [note_a2, note_a1]"
    unfolding getNotes_ok [OF world0_session f]
    by (simp add: order_desc_def policy_own_def auth_uid_def world0_defs lit_def)
  from getNotes_own_notes_sorted [OF world0_session u] g u f world0_session
  show ?thesis by simp
qed

section \<open>What createNote and updateNote store\<close>

lemma insert_single_data:
  assumes "insert_single t c u w = (r, w')" and "data r = Some n"
  shows "n = \<lparr>note_id = gen_random_uuid w, title = t, content = c,
              created_at = db_now w, updated_at = db_now w, user_id = u\<rparr>
         \<and> notes_table w' = notes_table w @ [n]
         \<and> requests w' = requests w @ [Insert t c u]"
  using assms
  by (auto simp: insert_single_def Let_def failed_def succeeded_def sent_def
           split: option.splits if_splits)

lemma update_single_data:
  assumes "update_single t c ts i u w = (r, w')" and "data r = Some n"
  shows "title n = t \<and> content n = c \<and> n \<in> set (notes_table w')"
proof -
  let ?hit = "\<lambda>n. policy_own w n \<and> eq_id_user i u n"
  let ?new = "\<lambda>n. update_updated_at_column w (n\<lparr>title := t, content := c, updated_at := ts\<rparr>)"
  from assms obtain m where m: "filter ?hit (notes_table w) = [m]" and n: "n = ?new m"
    and w': "notes_table w' = map (\<lambda>n. if ?hit n then ?new n else n) (notes_table w)"
    by (auto simp: update_single_def Let_def failed_def succeeded_def sent_def
             split: option.splits list.splits)
  from m have "m \<in> set (filter ?hit (notes_table w))" by simp
  then have "m \<in> set (notes_table w)" and "?hit m" by simp_all
  then have "?new m \<in> set (notes_table w')" unfolding w' by force
  with n show ?thesis by (simp add: update_updated_at_column_def)
qed

lemma answer_data:
  "(case rw of
      (r, w') \<Rightarrow>
        (case error r of
           Some e \<Rightarrow> (Inl (translate_error e), w')
         | None \<Rightarrow> (case data r of None \<Rightarrow> (Inl NoDataReturned, w') | Some d \<Rightarrow> (Inr d, w'))))
     = (Inr n, w'') \<Longrightarrow> data (fst rw) = Some n \<and> snd rw = w''"
  by (auto split: prod.splits option.splits)

lemma createNote_returns:
  assumes "fst (createNote t c w) = Inr n"
  shows "title n = trim t \<and> content n = trim c
         \<and> n \<in> set (notes_table (snd (createNote t c w)))"
proof -
  have "\<not> (trim t = [] \<or> length t > 100 \<or> length c > 10000)"
  proof
    assume "trim t = [] \<or> length t > 100 \<or> length c > 10000"
    then obtain e where "createNote t c w = (Inl e, w)"
      using createNote_invalid_error by blast
    with assms show False by simp
  qed
  then have v: "trim t \<noteq> []" "length t \<le> 100" "length c \<le> 10000" by auto
  obtain s where s: "getAuthenticatedSession w = Inr s"
    using assms v by (cases "getAuthenticatedSession w") (simp_all add: createNote_no_session)
  then obtain u where u: "session_user s = Some u" using valid_session_user by blast
  obtain w' where c: "createNote t c w = (Inr n, w')"
    using assms by (cases "createNote t c w") simp
  from c have "data (fst (insert_single (trim t) (trim c) (uid u) w)) = Some n
               \<and> snd (insert_single (trim t) (trim c) (uid u) w) = w'"
    unfolding createNote_valid [OF v s u] by (rule answer_data)
  then have "n = \<lparr>note_id = gen_random_uuid w, title = trim t, content = trim c,
              created_at = db_now w, updated_at = db_now w, user_id = uid u\<rparr>
         \<and> notes_table w' = notes_table w @ [n]"
    using insert_single_data [of "trim t" "trim c" "uid u" w _ w' n]
    by (cases "insert_single (trim t) (trim c) (uid u) w") auto
  with c show ?thesis by auto
qed

lemma updateNote_returns:
  assumes "fst (updateNote i t c w) = Inr n"
  shows "title n = trim t \<and> content n = trim c
         \<and> n \<in> set (notes_table (snd (updateNote i t c w)))"
proof -
  have "\<not> (i = [] \<or> trim t = [] \<or> length t > 100 \<or> length c > 10000)"
  proof
    assume "i = [] \<or> trim t = [] \<or> length t > 100 \<or> length c > 10000"
    then obtain e where "updateNote i t c w = (Inl e, w)"
      using updateNote_invalid_error by blast
    with assms show False by simp
  qed
  then have v: "i \<noteq> []" "trim t \<noteq> []" "length t \<le> 100" "length c \<le> 10000" by auto
  obtain s where s: "getAuthenticatedSession w = Inr s"
    using assms v by (cases "getAuthenticatedSession w") (simp_all add: updateNote_no_session)
  then obtain u where u: "session_user s = Some u" using valid_session_user by blast
  obtain w' where c: "updateNote i t c w = (Inr n, w')"
    using assms by (cases "updateNote i t c w") simp
  from c have "data (fst (update_single (trim t) (trim c) (date_now w) i (uid u) w)) = Some n
               \<and> snd (update_single (trim t) (trim c) (date_now w) i (uid u) w) = w'"
    unfolding updateNote_valid [OF v s u] by (rule answer_data)
  then have "title n = trim t \<and> content n = trim c \<and> n \<in> set (notes_table w')"
    using update_single_data [of "trim t" "trim c" "date_now w" i "uid u" w _ w' n]
    by (cases "update_single (trim t) (trim c) (date_now w) i (uid u) w") auto
  with c show ?thesis by auto
qed

lemma createNote_ok:
  assumes "trim t \<noteq> []" "length t \<le> 100" "length c \<le> 10000"
    and "getAuthenticatedSession w = Inr s" and "session_user s = Some u"
    and "fault w = None" and "gen_random_uuid w \<notin> set (map note_id (notes_table w))"
  shows "createNote t c w =
     (Inr \<lparr>note_id = gen_random_uuid w, title = trim t, content = trim c,
           created_at = db_now w, updated_at = db_now w, user_id = uid u\<rparr>,
      w\<lparr>requests := requests w @ [Insert (trim t) (trim c) (uid u)],
        notes_table := notes_table w @
          [\<lparr>note_id = gen_random_uuid w, title = trim t, content = trim c,
            created_at = db_now w, updated_at = db_now w, user_id = uid u\<rparr>]\<rparr>)"
proof -
  from assms(4,5) have au: "auth_uid w = Some (uid u)" using valid_session_user by fastforce
  show ?thesis
    unfolding createNote_valid [OF assms(1-5)]
    using assms(6,7) au
    by (simp add: insert_single_def Let_def succeeded_def sent_def)
qed

lemma updateNote_ok:
  assumes "i \<noteq> []" "trim t \<noteq> []" "length t \<le> 100" "length c \<le> 10000"
    and "getAuthenticatedSession w = Inr s" and "session_user s = Some u"
    and "fault w = None" and "filter (eq_id_user i (uid u)) (notes_table w) = [m]"
  shows "updateNote i t c w =
     (Inr (m\<lparr>title := trim t, content := trim c, updated_at := db_now w\<rparr>),
      w\<lparr>requests := requests w @ [Update i (uid u) (trim t) (trim c)],
        notes_table :=
          map (\<lambda>n. if eq_id_user i (uid u) n
                    then n\<lparr>title := trim t, content := trim c, updated_at := db_now w\<rparr>
                    else n) (notes_table w)\<rparr>)"
proof -
  from assms(5,6) have au: "auth_uid w = Some (uid u)" using valid_session_user by fastforce
  show ?thesis
    unfolding updateNote_valid [OF assms(1-6)]
    using assms(7,8)
    by (simp add: update_single_def Let_def own_rows [OF au] succeeded_def sent_def
        update_updated_at_column_def)
qed

lemma createNote_request:
  assumes "trim t \<noteq> []" "length t \<le> 100" "length c \<le> 10000"
    and "getAuthenticatedSession w = Inr s" and "session_user s = Some u"
  shows "requests (snd (createNote t c w)) = requests w @ [Insert (trim t) (trim c) (uid u)]"
  unfolding createNote_valid [OF assms]
  by (simp add: insert_single_def Let_def succeeded_def failed_def sent_def
      split: option.splits)

lemma updateNote_request:
  assumes "i \<noteq> []" "trim t \<noteq> []" "length t \<le> 100" "length c \<le> 10000"
    and "getAuthenticatedSession w = Inr s" and "session_user s = Some u"
  shows "requests (snd (updateNote i t c w)) = requests w @ [Update i (uid u) (trim t) (trim c)]"
  unfolding updateNote_valid [OF assms]
  by (simp add: update_single_def Let_def succeeded_def failed_def sent_def
      split: option.splits list.splits)

lemma updateNote_invalid:
  "i = [] \<Longrightarrow> updateNote i t c w = (Inl NoteIdRequired, w)"
  "i \<noteq> [] \<Longrightarrow> trim t = [] \<Longrightarrow> updateNote i t c w = (Inl TitleRequired, w)"
  "i \<noteq> [] \<Longrightarrow> trim t \<noteq> [] \<Longrightarrow> length t > 100 \<Longrightarrow> updateNote i t c w = (Inl TitleTooLong, w)"
  "i \<noteq> [] \<Longrightarrow> trim t \<noteq> [] \<Longrightarrow> length t \<le> 100 \<Longrightarrow> length c > 10000 \<Longrightarrow>
   updateNote i t c w = (Inl ContentTooLong, w)"
  by (simp_all add: updateNote_def)

text \<open>
  Claim C10. With input that passes validation and a valid session, \<open>createNote\<close> sends
  one insert and \<open>updateNote\<close> one update, each carrying the trimmed title and the trimmed
  content; when the remote runs the request (for the update: on the one row with that id
  owned by the caller), the row in the table and the note returned carry the trimmed
  title and the trimmed content, and every note either function returns does. The two
  length limits are tested on the arguments as given: a title of more than 100 code units
  or a content of more than 10,000 is rejected with a validation error, whatever its
  trimmed length.
\<close>

theorem stored_trimmed_checked_untrimmed:
  "(\<forall>n. fst (createNote t c w) = Inr n \<longrightarrow>
        title n = trim t \<and> content n = trim c
        \<and> n \<in> set (notes_table (snd (createNote t c w))))
   \<and> (\<forall>n. fst (updateNote i t c w) = Inr n \<longrightarrow>
        title n = trim t \<and> content n = trim c
        \<and> n \<in> set (notes_table (snd (updateNote i t c w))))
   \<and> (length t > 100 \<or> length c > 10000 \<longrightarrow>
        (\<exists>e. createNote t c w = (Inl e, w) \<and> is_ValidationError e)
        \<and> (\<exists>e. updateNote i t c w = (Inl e, w) \<and> is_ValidationError e))
   \<and> (trim t \<noteq> [] \<and> length t \<le> 100 \<and> length c \<le> 10000
       \<and> getAuthenticatedSession w = Inr s \<and> session_user s = Some u \<longrightarrow>
        requests (snd (createNote t c w)) = requests w @ [Insert (trim t) (trim c) (uid u)]
        \<and> (fault w = None \<and> gen_random_uuid w \<notin> set (map note_id (notes_table w)) \<longrightarrow>
             createNote t c w =
               (Inr \<lparr>note_id = gen_random_uuid w, title = trim t, content = trim c,
                     created_at = db_now w, updated_at = db_now w, user_id = uid u\<rparr>,
                w\<lparr>requests := requests w @ [Insert (trim t) (trim c) (uid u)],
                  notes_table := notes_table w @
                    [\<lparr>note_id = gen_random_uuid w, title = trim t, content = trim c,
                      created_at = db_now w, updated_at = db_now w, user_id = uid u\<rparr>]\<rparr>)))
   \<and> (i \<noteq> [] \<and> trim t \<noteq> [] \<and> length t \<le> 100 \<and> length c \<le> 10000
       \<and> getAuthenticatedSession w = Inr s \<and> session_user s = Some u \<longrightarrow>
        requests (snd (updateNote i t c w)) = requests w @ [Update i (uid u) (trim t) (trim c)]
        \<and> (\<forall>m. fault w = None \<and> filter (eq_id_user i (uid u)) (notes_table w) = [m] \<longrightarrow>
             updateNote i t c w =
               (Inr (m\<lparr>title := trim t, content := trim c, updated_at := db_now w\<rparr>),
                w\<lparr>requests := requests w @ [Update i (uid u) (trim t) (trim c)],
                  notes_table :=
                    map (\<lambda>n. if eq_id_user i (uid u) n
                              then n\<lparr>title := trim t, content := trim c, updated_at := db_now w\<rparr>
                              else n) (notes_table w)\<rparr>)))"
proof -
  have old: "(\<forall>n. fst (createNote t c w) = Inr n \<longrightarrow>
        title n = trim t \<and> content n = trim c
        \<and> n \<in> set (notes_table (snd (createNote t c w))))
   \<and> (\<forall>n. fst (updateNote i t c w) = Inr n \<longrightarrow>
        title n = trim t \<and> content n = trim c
        \<and> n \<in> set (notes_table (snd (updateNote i t c w))))
   \<and> (length t > 100 \<or> length c > 10000 \<longrightarrow>
        (\<exists>e. createNote t c w = (Inl e, w) \<and> is_ValidationError e)
        \<and> (\<exists>e. updateNote i t c w = (Inl e, w) \<and> is_ValidationError e))"
    using createNote_returns [of t c w] updateNote_returns [of i t c w]
      createNote_invalid_error [of t c w] updateNote_invalid_error [of i t c w]
    by blast
  have cr: "requests (snd (createNote t c w)) = requests w @ [Insert (trim t) (trim c) (uid u)]
        \<and> (fault w = None \<and> gen_random_uuid w \<notin> set (map note_id (notes_table w)) \<longrightarrow>
             createNote t c w =
               (Inr \<lparr>note_id = gen_random_uuid w, title = trim t, content = trim c,
                     created_at = db_now w, updated_at = db_now w, user_id = uid u\<rparr>,
                w\<lparr>requests := requests w @ [Insert (trim t) (trim c) (uid u)],
                  notes_table := notes_table w @
                    [\<lparr>note_id = gen_random_uuid w, title = trim t, content = trim c,
                      created_at = db_now w, updated_at = db_now w, user_id = uid u\<rparr>]\<rparr>))"
    if "trim t \<noteq> [] \<and> length t \<le> 100 \<and> length c \<le> 10000
       \<and> getAuthenticatedSession w = Inr s \<and> session_user s = Some u"
    using that createNote_request [of t c w s u] createNote_ok [of t c w s u] by blast
  have up: "requests (snd (updateNote i t c w)) = requests w @ [Update i (uid u) (trim t) (trim c)]
        \<and> (\<forall>m. fault w = None \<and> filter (eq_id_user i (uid u)) (notes_table w) = [m] \<longrightarrow>
             updateNote i t c w =
               (Inr (m\<lparr>title := trim t, content := trim c, updated_at := db_now w\<rparr>),
                w\<lparr>requests := requests w @ [Update i (uid u) (trim t) (trim c)],
                  notes_table :=
                    map (\<lambda>n. if eq_id_user i (uid u) n
                              then n\<lparr>title := trim t, content := trim c, updated_at := db_now w\<rparr>
                              else n) (notes_table w)\<rparr>))"
    if "i \<noteq> [] \<and> trim t \<noteq> [] \<and> length t \<le> 100 \<and> length c \<le> 10000
       \<and> getAuthenticatedSession w = Inr s \<and> session_user s = Some u"
    using that updateNote_request [of i t c w s u] updateNote_ok [of i t c w s u] by blast
  from old cr up show ?thesis by blast
qed

lemma trim_hi: "trim (lit '' hi '') = lit ''hi''" "trim (lit ''x  '') = lit ''x''"
  by (simp_all add: trim_def trimStart_def trimEnd_def isWhiteSpace_def lit_def)

lemma world0_fresh: "gen_random_uuid world0 \<notin> set (map note_id (notes_table world0))"
  by (simp add: world0_defs lit_def)

lemma createNote_hi: "fst (createNote (lit '' hi '') (lit ''x  '') world0) = Inr note_hi"
proof -
  have u: "session_user alice_session = Some alice" by (simp add: alice_session_def)
  have f: "fault world0 = None" by (simp add: world0_def)
  have v: "trim (lit '' hi '') \<noteq> []" "length (lit '' hi '') \<le> 100" "length (lit ''x  '') \<le> 10000"
    by (simp_all add: trim_hi) (simp_all add: lit_def)
  show ?thesis
    unfolding createNote_ok [OF v world0_session u f world0_fresh]
    by (simp add: trim_hi note_hi_def) (simp add: world0_def alice_def)
qed

lemma world0_row_a2: "filter (eq_id_user (lit ''a2'') (uid alice)) (notes_table world0) = [note_a2]"
  by (simp add: eq_id_user_def world0_defs lit_def)

lemma world0_rows_updated:
  "map (\<lambda>n. if eq_id_user (lit ''a2'') (lit ''alice'') n
            then n\<lparr>title := lit ''hi'', content := lit ''x'', updated_at := db_now world0\<rparr>
            else n) (notes_table world0)
   = [note_a1, note_b1, note_a2_hi]"
  by (simp add: eq_id_user_def world0_defs note_a2_hi_def lit_def)

theorem stored_trimmed_checked_untrimmed_witness:
  "length (letter_a # replicate 100 space) > 100
   \<and> length (trim (letter_a # replicate 100 space)) \<le> 100
   \<and> createNote (letter_a # replicate 100 space) [] world0 = (Inl TitleTooLong, world0)
   \<and> updateNote (lit ''a2'') (letter_a # replicate 100 space) [] world0 = (Inl TitleTooLong, world0)
   \<and> fst (createNote (lit '' hi '') (lit ''x  '') world0) = Inr note_hi
   \<and> title note_hi = lit ''hi'' \<and> content note_hi = lit ''x''
   \<and> note_hi \<in> set (notes_table (snd (createNote (lit '' hi '') (lit ''x  '') world0)))
   \<and> requests (snd (createNote (lit '' hi '') (lit ''x  '') world0))
       = [Insert (lit ''hi'') (lit ''x'') (lit ''alice'')]
   \<and> updateNote (lit ''a2'') (lit '' hi '') (lit ''x  '') world0 =
       (Inr note_a2_hi,
        world0\<lparr>requests := [Update (lit ''a2'') (lit ''alice'') (lit ''hi'') (lit ''x'')],
               notes_table := [note_a1, note_b1, note_a2_hi]\<rparr>)
   \<and> title note_a2_hi = lit ''hi'' \<and> content note_a2_hi = lit ''x''"
proof -
  have l: "length (letter_a # replicate 100 space) > 100" by simp
  have ne: "trim (letter_a # replicate 100 space) \<noteq> []" by (simp add: trim_padded)
  have i: "lit ''a2'' \<noteq> []" by (simp add: lit_def)
  have e: "createNote (letter_a # replicate 100 space) [] world0 = (Inl TitleTooLong, world0)"
    using l ne by (simp add: createNote_invalid)
  have e': "updateNote (lit ''a2'') (letter_a # replicate 100 space) [] world0
              = (Inl TitleTooLong, world0)"
    using l ne i by (simp add: updateNote_invalid)
  have u: "session_user alice_session = Some alice" by (simp add: alice_session_def)
  have f: "fault world0 = None" by (simp add: world0_def)
  have v: "trim (lit '' hi '') \<noteq> [] \<and> length (lit '' hi '') \<le> 100 \<and> length (lit ''x  '') \<le> 10000"
    by (simp add: trim_hi) (simp add: lit_def)
  note inst = stored_trimmed_checked_untrimmed
    [where t = "lit '' hi ''" and c = "lit ''x  ''" and w = world0 and i = "lit ''a2''"
       and s = alice_session and u = alice]
  from inst createNote_hi
  have c1: "title note_hi = trim (lit '' hi '') \<and> content note_hi = trim (lit ''x  '')
        \<and> note_hi \<in> set (notes_table (snd (createNote (lit '' hi '') (lit ''x  '') world0)))"
    by blast
  from inst v world0_session u
  have c2: "requests (snd (createNote (lit '' hi '') (lit ''x  '') world0))
        = requests world0 @ [Insert (trim (lit '' hi '')) (trim (lit ''x  '')) (uid alice)]"
    by blast
  from inst v i world0_session u f world0_row_a2
  have c3: "updateNote (lit ''a2'') (lit '' hi '') (lit ''x  '') world0 =
       (Inr (note_a2\<lparr>title := trim (lit '' hi ''), content := trim (lit ''x  ''),
                     updated_at := db_now world0\<rparr>),
        world0\<lparr>requests := requests world0
                  @ [Update (lit ''a2'') (uid alice) (trim (lit '' hi '')) (trim (lit ''x  ''))],
               notes_table :=
                 map (\<lambda>n. if eq_id_user (lit ''a2'') (uid alice) n
                           then n\<lparr>title := trim (lit '' hi ''), content := trim (lit ''x  ''),
                                  updated_at := db_now world0\<rparr>
                           else n) (notes_table world0)\<rparr>)"
    by blast
  have r0: "requests world0 = []" and ua: "uid alice = lit ''alice''"
    and n2: "note_a2\<lparr>title := lit ''hi'', content := lit ''x'', updated_at := db_now world0\<rparr>
             = note_a2_hi"
    and t2: "title note_a2_hi = lit ''hi'' \<and> content note_a2_hi = lit ''x''"
    by (simp_all add: world0_def alice_def note_a2_def note_a2_hi_def)
  from c3 have c3': "updateNote (lit ''a2'') (lit '' hi '') (lit ''x  '') world0 =
       (Inr note_a2_hi,
        world0\<lparr>requests := [Update (lit ''a2'') (lit ''alice'') (lit ''hi'') (lit ''x'')],
               notes_table := [note_a1, note_b1, note_a2_hi]\<rparr>)"
    by (simp only: trim_hi world0_rows_updated n2 r0 ua append_Nil)
  from c2 have c2': "requests (snd (createNote (lit '' hi '') (lit ''x  '') world0))
       = [Insert (lit ''hi'') (lit ''x'') (lit ''alice'')]"
    by (simp only: trim_hi r0 ua append_Nil)
  from c1 have c1': "title note_hi = lit ''hi'' \<and> content note_hi = lit ''x''
        \<and> note_hi \<in> set (notes_table (snd (createNote (lit '' hi '') (lit ''x  '') world0)))"
    by (simp only: trim_hi)
  have lt: "length (trim (letter_a # replicate 100 space)) \<le> 100" by (simp add: trim_padded)
  from l lt e e' createNote_hi c1' c2' c3' t2 show ?thesis by blast
qed

section \<open>createNote followed by getNotes\<close>

lemma set_order_desc: "set (order_desc f rows) = set rows"
  by (simp add: order_desc_def)

lemma getNotes_owned:
  assumes "getAuthenticatedSession w = Inr s" and "session_user s = Some u" and "fault w = None"
  shows "fst (getNotes w) =
           Inr (order_desc updated_at (filter (\<lambda>n. user_id n = uid u) (notes_table w)))"
proof -
  from assms(1,2) have "auth_uid w = Some (uid u)" using valid_session_user by fastforce
  with assms show ?thesis by (simp add: getNotes_ok filter_policy_own)
qed

text \<open>
  Claim C7, amended. For a title that does not trim to the empty string and has at most
  100 code units and a content of at most 10,000, under a valid session, a remote that
  answers without error and an identifier drawn fresh by the database: \<open>createNote\<close>
  sends one insert with the trimmed title, the trimmed content and \<open>user_id\<close> set to the
  id of the session's user, and returns the created note with the identifier and the
  timestamps the database assigned; \<open>getNotes\<close> afterwards returns what it returned
  before plus exactly that one note, which was not there before.
\<close>

theorem createNote_then_getNotes:
  assumes "trim t \<noteq> []" and "length t \<le> 100" and "length c \<le> 10000"
    and "getAuthenticatedSession w = Inr s" and "session_user s = Some u"
    and "fault w = None" and "gen_random_uuid w \<notin> set (map note_id (notes_table w))"
  shows "\<exists>n w' before after.
           createNote t c w = (Inr n, w')
           \<and> n = \<lparr>note_id = gen_random_uuid w, title = trim t, content = trim c,
                   created_at = db_now w, updated_at = db_now w, user_id = uid u\<rparr>
           \<and> requests w' = requests w @ [Insert (trim t) (trim c) (uid u)]
           \<and> fst (getNotes w) = Inr before
           \<and> fst (getNotes w') = Inr after
           \<and> mset after = add_mset n (mset before)
           \<and> n \<notin> set before"
proof -
  define n where "n = \<lparr>note_id = gen_random_uuid w, title = trim t, content = trim c,
                   created_at = db_now w, updated_at = db_now w, user_id = uid u\<rparr>"
  define w' where "w' = w\<lparr>requests := requests w @ [Insert (trim t) (trim c) (uid u)],
                          notes_table := notes_table w @ [n]\<rparr>"
  define before where "before = order_desc updated_at (filter (\<lambda>m. user_id m = uid u) (notes_table w))"
  define after where "after = order_desc updated_at (filter (\<lambda>m. user_id m = uid u) (notes_table w'))"
  have c: "createNote t c w = (Inr n, w')"
    unfolding n_def w'_def by (rule createNote_ok [OF assms])
  have s': "getAuthenticatedSession w' = Inr s"
    using assms(4) getAuthenticatedSession_cong [of w' w] by (simp add: w'_def)
  have f': "fault w' = None" using assms(6) by (simp add: w'_def)
  have b: "fst (getNotes w) = Inr before"
    unfolding before_def by (rule getNotes_owned [OF assms(4,5,6)])
  have a: "fst (getNotes w') = Inr after"
    unfolding after_def by (rule getNotes_owned [OF s' assms(5) f'])
  have m: "mset after = add_mset n (mset before)"
    by (simp add: after_def before_def mset_order_desc w'_def) (simp add: n_def)
  have "note_id n \<notin> note_id ` set (notes_table w)" using assms(7) by (simp add: n_def)
  then have "n \<notin> set (notes_table w)" by blast
  then have nb: "n \<notin> set before" by (simp add: before_def set_order_desc)
  have r: "requests w' = requests w @ [Insert (trim t) (trim c) (uid u)]" by (simp add: w'_def)
  from c r b a m nb show ?thesis unfolding n_def [symmetric] by blast
qed

lemma world0_after_createNote_hi:
  "createNote (lit '' hi '') (lit ''x  '') world0 =
     (Inr note_hi,
      world0\<lparr>requests := [Insert (lit ''hi'') (lit ''x'') (lit ''alice'')],
             notes_table := [note_a1, note_b1, note_a2, note_hi]\<rparr>)"
proof -
  have u: "session_user alice_session = Some alice" by (simp add: alice_session_def)
  have f: "fault world0 = None" by (simp add: world0_def)
  have v: "trim (lit '' hi '') \<noteq> []" "length (lit '' hi '') \<le> 100" "length (lit ''x  '') \<le> 10000"
    by (simp_all add: trim_hi) (simp_all add: lit_def)
  show ?thesis
    unfolding createNote_ok [OF v world0_session u f world0_fresh]
    by (simp add: trim_hi note_hi_def) (simp add: world0_def alice_def)
qed

lemma getNotes_after_createNote_hi:
  "fst (getNotes (snd (createNote (lit '' hi '') (lit ''x  '') world0)))
     = Inr [note_hi, note_a2, note_a1]"
proof -
  let ?w = "world0\<lparr>requests := [Insert (lit ''hi'') (lit ''x'') (lit ''alice'')],
                    notes_table := [note_a1, note_b1, note_a2, note_hi]\<rparr>"
  have u: "session_user alice_session = Some alice" by (simp add: alice_session_def)
  have s: "getAuthenticatedSession ?w = Inr alice_session"
    using getAuthenticatedSession_cong [of ?w world0] by (simp add: world0_session)
  have f: "fault ?w = None" by (simp add: world0_def)
  have "fst (getNotes ?w) = Inr [note_hi, note_a2, note_a1]"
    unfolding getNotes_owned [OF s u f]
    by (simp add: order_desc_def world0_defs note_hi_def lit_def)
  then show ?thesis by (simp add: world0_after_createNote_hi)
qed

theorem createNote_then_getNotes_witness:
  "trim (lit '' hi '') \<noteq> [] \<and> length (lit '' hi '') \<le> 100 \<and> length (lit ''x  '') \<le> 10000
   \<and> getAuthenticatedSession world0 = Inr alice_session
   \<and> session_user alice_session = Some alice
   \<and> fault world0 = None
   \<and> gen_random_uuid world0 \<notin> set (map note_id (notes_table world0))
   \<and> (\<exists>n w' before after.
         createNote (lit '' hi '') (lit ''x  '') world0 = (Inr n, w')
         \<and> n = \<lparr>note_id = gen_random_uuid world0, title = trim (lit '' hi ''),
                 content = trim (lit ''x  ''), created_at = db_now world0,
                 updated_at = db_now world0, user_id = uid alice\<rparr>
         \<and> requests w' = requests world0 @ [Insert (trim (lit '' hi '')) (trim (lit ''x  '')) (uid alice)]
         \<and> fst (getNotes world0) = Inr before
         \<and> fst (getNotes w') = Inr after
         \<and> mset after = add_mset n (mset before)
         \<and> n \<notin> set before)"
proof -
  have u: "session_user alice_session = Some alice" by (simp add: alice_session_def)
  have f: "fault world0 = None" by (simp add: world0_def)
  have v: "trim (lit '' hi '') \<noteq> []" "length (lit '' hi '') \<le> 100" "length (lit ''x  '') \<le> 10000"
    by (simp_all add: trim_hi) (simp_all add: lit_def)
  from createNote_then_getNotes [OF v world0_session u f world0_fresh] v world0_session u f world0_fresh
  show ?thesis by blast
qed

text \<open>
  Claim C7, as stated, fails at two inputs. The title " " is not empty and within the
  limits, yet \<open>createNote\<close> rejects it. And for the title " hi " and the content "x  "
  the created note carries "hi" and "x": the list afterwards holds no note whose title
  is the title that was passed.
\<close>

theorem createNote_blank_title_and_trimmed_values:
  "[space] \<noteq> [] \<and> length [space] \<le> 100 \<and> length ([] :: js_string) \<le> 10000
   \<and> fst (createNote [space] [] world0) = Inl TitleRequired
   \<and> fst (createNote (lit '' hi '') (lit ''x  '') world0) = Inr note_hi
   \<and> fst (getNotes (snd (createNote (lit '' hi '') (lit ''x  '') world0)))
       = Inr [note_hi, note_a2, note_a1]
   \<and> title note_hi \<noteq> lit '' hi '' \<and> title note_a2 \<noteq> lit '' hi '' \<and> title note_a1 \<noteq> lit '' hi ''"
proof -
  have "trim [space] = []" by (simp add: trim_empty_iff isWhiteSpace_space)
  then have a: "fst (createNote [space] [] world0) = Inl TitleRequired"
    by (simp add: createNote_invalid)
  have b: "fst (createNote (lit '' hi '') (lit ''x  '') world0) = Inr note_hi"
    by (simp add: world0_after_createNote_hi)
  have c: "title note_hi \<noteq> lit '' hi '' \<and> title note_a2 \<noteq> lit '' hi ''
           \<and> title note_a1 \<noteq> lit '' hi ''"
    by (simp add: note_hi_def note_a1_def note_a2_def lit_def)
  have d: "[space] \<noteq> [] \<and> length [space] \<le> 100 \<and> length ([] :: js_string) \<le> 10000"
    by simp
  from a b c d getNotes_after_createNote_hi show ?thesis by blast
qed

section \<open>updateNote and deleteNote when no row matches\<close>

lemma translate_PGRST116: "translate_error PGRST116 = AccessDenied"
  by (simp add: translate_error_def PGRST116_def message_includes_def lit_def)

lemma updateNote_no_row:
  assumes "i \<noteq> []" "trim t \<noteq> []" "length t \<le> 100" "length c \<le> 10000"
    and "getAuthenticatedSession w = Inr s" and "session_user s = Some u" and "fault w = None"
    and "filter (eq_id_user i (uid u)) (notes_table w) = []"
  shows "updateNote i t c w = (Inl AccessDenied, sent (Update i (uid u) (trim t) (trim c)) w)"
proof -
  from assms(5,6) have au: "auth_uid w = Some (uid u)" using valid_session_user by fastforce
  show ?thesis
    unfolding updateNote_valid [OF assms(1-6)]
    using assms(7,8)
    by (simp add: update_single_def Let_def own_rows [OF au] failed_def translate_PGRST116)
qed

lemma no_row_filter:
  "(\<forall>n \<in> set rows. \<not> (note_id n = i \<and> user_id n = v)) \<longleftrightarrow> filter (eq_id_user i v) rows = []"
  by (auto simp: filter_empty_conv eq_id_user_def)

lemma deleteNote_no_row:
  assumes "getAuthenticatedSession w = Inr s" and "session_user s = Some u" and "fault w = None"
    and "filter (eq_id_user i (uid u)) (notes_table w) = []"
  shows "notes_table (snd (deleteNote i w)) = notes_table w"
proof (cases "i = []")
  case True
  then show ?thesis by (simp add: deleteNote_def)
next
  case False
  from assms(4) have "filter (\<lambda>n. \<not> eq_id_user i (uid u) n) (notes_table w) = notes_table w"
    by (simp add: filter_empty_conv)
  then show ?thesis
    by (simp add: deleteNote_remote_ok [OF False assms(1,2,3)])
qed

lemma deleteNote_outcome:
  assumes "getAuthenticatedSession w = Inr s" and "fault w = None"
  shows "fst (deleteNote i w) = Inl (if i = [] then NoteIdRequired else NoDataReturned)"
proof (cases "i = []")
  case True
  then show ?thesis by (simp add: deleteNote_def)
next
  case False
  from assms(1) obtain u where "session_user s = Some u" using valid_session_user by blast
  with False assms show ?thesis by (simp add: deleteNote_remote_ok)
qed

text \<open>
  Claim C1, amended. Under a valid session and a remote that answers without error, when
  no row has both the given id and the session user's id as owner (the note does not
  exist or belongs to someone else): \<open>updateNote\<close> with input that passes validation
  throws the denial error "Access denied. You can only access your own notes.", the one
  error that stands for "access denied" and "not found", and changes no row;
  \<open>deleteNote\<close> changes no row; and the outcome of either call is the outcome it has on
  an empty table, so it does not tell a missing note from a note of another owner. A
  second \<open>deleteNote\<close> of the same id, after one that removed the row, is such a call.
\<close>

theorem zero_rows_update_delete:
  assumes "getAuthenticatedSession w = Inr s" and "session_user s = Some u" and "fault w = None"
    and "\<forall>n \<in> set (notes_table w). \<not> (note_id n = i \<and> user_id n = uid u)"
  shows "(i \<noteq> [] \<and> trim t \<noteq> [] \<and> length t \<le> 100 \<and> length c \<le> 10000 \<longrightarrow>
            fst (updateNote i t c w) = Inl AccessDenied
            \<and> is_NotFoundError AccessDenied
            \<and> notes_table (snd (updateNote i t c w)) = notes_table w)
         \<and> notes_table (snd (deleteNote i w)) = notes_table w
         \<and> fst (updateNote i t c w) = fst (updateNote i t c (w\<lparr>notes_table := []\<rparr>))
         \<and> fst (deleteNote i w) = fst (deleteNote i (w\<lparr>notes_table := []\<rparr>))"
proof -
  from assms(4) have z: "filter (eq_id_user i (uid u)) (notes_table w) = []"
    using no_row_filter [of "notes_table w" i "uid u"] by blast
  let ?e = "w\<lparr>notes_table := []\<rparr>"
  have se: "getAuthenticatedSession ?e = Inr s"
    using assms(1) getAuthenticatedSession_cong [of ?e w] by simp
  have fe: "fault ?e = None" using assms(3) by simp
  have ze: "filter (eq_id_user i (uid u)) (notes_table ?e) = []" by simp
  have upd: "fst (updateNote i t c w) = Inl AccessDenied
            \<and> is_NotFoundError AccessDenied
            \<and> notes_table (snd (updateNote i t c w)) = notes_table w"
    if "i \<noteq> [] \<and> trim t \<noteq> [] \<and> length t \<le> 100 \<and> length c \<le> 10000"
    using that updateNote_no_row [OF _ _ _ _ assms(1,2,3) z, of t c]
    by (simp add: sent_def)
  have same_upd: "fst (updateNote i t c w) = fst (updateNote i t c ?e)"
  proof (cases "i \<noteq> [] \<and> trim t \<noteq> [] \<and> length t \<le> 100 \<and> length c \<le> 10000")
    case True
    then show ?thesis
      using updateNote_no_row [OF _ _ _ _ assms(1,2,3) z, of t c]
        updateNote_no_row [OF _ _ _ _ se assms(2) fe ze, of t c]
      by simp
  next
    case False
    then show ?thesis by (auto simp: updateNote_def)
  qed
  have same_del: "fst (deleteNote i w) = fst (deleteNote i ?e)"
    by (simp add: deleteNote_outcome [OF assms(1,3)] deleteNote_outcome [OF se fe])
  from upd same_upd same_del deleteNote_no_row [OF assms(1,2,3) z]
  show ?thesis by blast
qed

lemma world0_after_deleteNote_a1:
  "deleteNote (lit ''a1'') world0 =
     (Inl NoDataReturned,
      world0\<lparr>requests := [Delete (lit ''a1'') (lit ''alice'')], notes_table := [note_b1, note_a2]\<rparr>)"
proof -
  have u: "session_user alice_session = Some alice" by (simp add: alice_session_def)
  have f: "fault world0 = None" by (simp add: world0_def)
  have i: "lit ''a1'' \<noteq> []" by (simp add: lit_def)
  show ?thesis
    unfolding deleteNote_remote_ok [OF i world0_session u f]
    by (simp add: eq_id_user_def world0_defs lit_def)
qed

theorem zero_rows_update_delete_witness:
  "getAuthenticatedSession (snd (deleteNote (lit ''a1'') world0)) = Inr alice_session
   \<and> session_user alice_session = Some alice
   \<and> fault (snd (deleteNote (lit ''a1'') world0)) = None
   \<and> filter (eq_id_user (lit ''a1'') (uid alice))
         (notes_table (snd (deleteNote (lit ''a1'') world0))) = []
   \<and> notes_table (snd (deleteNote (lit ''a1'') (snd (deleteNote (lit ''a1'') world0))))
       = notes_table (snd (deleteNote (lit ''a1'') world0))
   \<and> filter (eq_id_user (lit ''b1'') (uid alice)) (notes_table world0) = []
   \<and> fst (updateNote (lit ''b1'') (lit '' hi '') (lit ''x  '') world0) = Inl AccessDenied
   \<and> notes_table (snd (updateNote (lit ''b1'') (lit '' hi '') (lit ''x  '') world0)) = notes_table world0
   \<and> notes_table (snd (deleteNote (lit ''b1'') world0)) = notes_table world0"
proof -
  let ?w = "snd (deleteNote (lit ''a1'') world0)"
  have u: "session_user alice_session = Some alice" by (simp add: alice_session_def)
  have s: "getAuthenticatedSession ?w = Inr alice_session"
    unfolding world0_after_deleteNote_a1
    using getAuthenticatedSession_cong [of _ world0] by (simp add: world0_session)
  have f: "fault ?w = None" by (simp add: world0_after_deleteNote_a1) (simp add: world0_def)
  have z: "\<forall>n \<in> set (notes_table ?w). \<not> (note_id n = lit ''a1'' \<and> user_id n = uid alice)"
    by (simp add: world0_after_deleteNote_a1) (simp add: world0_defs lit_def)
  have f0: "fault world0 = None" by (simp add: world0_def)
  have z0: "\<forall>n \<in> set (notes_table world0). \<not> (note_id n = lit ''b1'' \<and> user_id n = uid alice)"
    by (simp add: world0_defs lit_def)
  have v: "lit ''b1'' \<noteq> [] \<and> trim (lit '' hi '') \<noteq> [] \<and> length (lit '' hi '') \<le> 100
           \<and> length (lit ''x  '') \<le> 10000"
    by (simp add: trim_hi) (simp add: lit_def)
  from z z0 have zf: "filter (eq_id_user (lit ''a1'') (uid alice)) (notes_table ?w) = []"
    and zf0: "filter (eq_id_user (lit ''b1'') (uid alice)) (notes_table world0) = []"
    by (simp_all only: no_row_filter)
  from zero_rows_update_delete [OF s u f z]
    zero_rows_update_delete [OF world0_session u f0 z0, of "lit '' hi ''" "lit ''x  ''"] v s u f zf zf0
  show ?thesis by blast
qed

text \<open>
  Claim C1, as stated, fails for \<open>deleteNote\<close>: on an id that matches no row of the
  caller it throws "No data returned from the server.", which is not the denial error,
  and which it throws just the same when the row exists, is owned by the caller and is
  deleted.
\<close>

theorem deleteNote_zero_rows_no_data:
  "filter (eq_id_user (lit ''b1'') (uid alice)) (notes_table world0) = []
   \<and> fst (deleteNote (lit ''b1'') world0) = Inl NoDataReturned
   \<and> \<not> is_NotFoundError NoDataReturned
   \<and> error_message NoDataReturned = lit ''No data returned from the server.''
   \<and> fst (deleteNote (lit ''a1'') world0) = Inl NoDataReturned
   \<and> notes_table (snd (deleteNote (lit ''a1'') world0)) = [note_b1, note_a2]"
proof -
  have f: "fault world0 = None" by (simp add: world0_def)
  have i: "lit ''b1'' \<noteq> []" by (simp add: lit_def)
  have "fst (deleteNote (lit ''b1'') world0) = Inl NoDataReturned"
    using i by (simp add: deleteNote_outcome [OF world0_session f])
  then show ?thesis
    by (simp add: world0_after_deleteNote_a1) (simp add: eq_id_user_def world0_defs lit_def)
qed

end
